theory Spec2Isabelle
  imports Complex_Main "HOL-Library.Multiset" "HOL-Library.Product_Lexorder"
begin

section \<open>Common: Python exceptions\<close>

text \<open>
  Exceptions of the Python sources are values. \<open>NameError n\<close> is raised when the name
  \<open>n\<close> is evaluated in a module that does not bind it. \<open>Raised msg\<close> stands for any
  exception raised by an external collaborator (OpenCV, EasyOCR, PIL, the speech engine,
  the chat API); \<open>msg\<close> is what \<open>str(e)\<close> returns.
\<close>

datatype exn = ZeroDivisionError | ValueError | IndexError | NameError string | Raised string

fun str_of_exn :: "exn \<Rightarrow> string" where
  "str_of_exn ZeroDivisionError = ''division by zero''"
| "str_of_exn ValueError = ''not enough values to unpack''"
| "str_of_exn IndexError = ''list index out of range''"
| "str_of_exn (NameError n) = ''name '' @ [CHR 0x27] @ n @ [CHR 0x27] @ '' is not defined''"
| "str_of_exn (Raised msg) = msg"

section \<open>Image viewer (src/ui/image\_viewer.py, zoom slots of src/app.py)\<close>

text \<open>
  A \<open>QPixmap\<close> is its size and an opaque handle for the pixel data; the null pixmap has
  width and height 0. Zoom factors are Python floats; they are modelled as exact
  rationals, so rounding is not part of the model.
\<close>

record pixmap =
  pm_width :: int
  pm_height :: int
  pm_pixels :: nat


text \<open>
  The viewer's state. \<open>label_pixmap\<close> is what \<open>image_label\<close> shows: the original
  pixmap together with the zoom factor it was scaled by. \<open>viewport_size\<close> is
  \<open>self.viewport().size()\<close> as (width, height).
\<close>

record viewer =
  original_pixmap :: "pixmap option"
  zoom_factor :: rat
  label_pixmap :: "(pixmap \<times> rat) option"
  download_button_enabled :: bool
  zoom_out_btn_enabled :: bool
  zoom_reset_btn_enabled :: bool
  zoom_in_btn_enabled :: bool
  viewport_size :: "int \<times> int"

text \<open>The state \<open>__init__\<close> leaves, for a given viewport.\<close>

definition init_viewer :: "int \<times> int \<Rightarrow> viewer" where
  "init_viewer vp =
     \<lparr>original_pixmap = None, zoom_factor = 1, label_pixmap = None,
      download_button_enabled = False, zoom_out_btn_enabled = True,
      zoom_reset_btn_enabled = True, zoom_in_btn_enabled = True,
      viewport_size = vp\<rparr>"

definition update_image :: "viewer \<Rightarrow> viewer" where
  "update_image v =
     (case original_pixmap v of
        None \<Rightarrow> v
      | Some pm \<Rightarrow> v\<lparr>label_pixmap := Some (pm, zoom_factor v)\<rparr>)"

text \<open>
  \<open>fit_to_viewport\<close> divides the viewport size by the pixmap size: Python raises
  \<open>ZeroDivisionError\<close> for a pixmap of width or height 0. The result is the state
  reached and the exception that escapes, if any.
\<close>

definition fit_to_viewport :: "viewer \<Rightarrow> viewer \<times> exn option" where
  "fit_to_viewport v =
     (case original_pixmap v of
        None \<Rightarrow> (v, None)
      | Some pm \<Rightarrow>
          if pm_width pm = 0 then (v, Some ZeroDivisionError)
          else if pm_height pm = 0 then (v, Some ZeroDivisionError)
          else
            (let width_scale = of_int (fst (viewport_size v)) / of_int (pm_width pm);
                 height_scale = of_int (snd (viewport_size v)) / of_int (pm_height pm)
             in (update_image (v\<lparr>zoom_factor := min width_scale height_scale\<rparr>), None)))"




text \<open>The expression \<open>max(0.1, min(self.zoom_factor, 5.0))\<close> of both zoom paths.\<close>

definition clamp_zoom :: "rat \<Rightarrow> rat" where
  "clamp_zoom z = max (1 / 10) (min z 5)"

definition zoom_image :: "rat \<Rightarrow> viewer \<Rightarrow> viewer" where
  "zoom_image factor v =
     (case original_pixmap v of
        None \<Rightarrow> v
      | Some pm \<Rightarrow> update_image (v\<lparr>zoom_factor := clamp_zoom (zoom_factor v * factor)\<rparr>))"

text \<open>\<open>handle_wheel\<close>, given \<open>event.angleDelta().y()\<close>.\<close>

definition handle_wheel :: "int \<Rightarrow> viewer \<Rightarrow> viewer" where
  "handle_wheel delta_y v =
     (case original_pixmap v of
        None \<Rightarrow> v
      | Some pm \<Rightarrow>
          (let z = (if delta_y > 0 then zoom_factor v * (11 / 10) else zoom_factor v / (11 / 10))
           in update_image (v\<lparr>zoom_factor := clamp_zoom z\<rparr>)))"


text \<open>
  The main window's own zoom slots (src/app.py), which write the viewer's zoom factor.
  Their test \<open>if self.image_viewer.original_pixmap:\<close> is taken as ``is not None''.
\<close>

definition zoom_in :: "viewer \<Rightarrow> viewer" where
  "zoom_in v =
     (case original_pixmap v of
        None \<Rightarrow> v
      | Some pm \<Rightarrow> update_image (v\<lparr>zoom_factor := zoom_factor v * (12 / 10)\<rparr>))"

definition zoom_out :: "viewer \<Rightarrow> viewer" where
  "zoom_out v =
     (case original_pixmap v of
        None \<Rightarrow> v
      | Some pm \<Rightarrow> update_image (v\<lparr>zoom_factor := zoom_factor v / (12 / 10)\<rparr>))"

definition reset_zoom :: "viewer \<Rightarrow> viewer" where
  "reset_zoom v =
     (case original_pixmap v of
        None \<Rightarrow> v
      | Some pm \<Rightarrow> update_image (v\<lparr>zoom_factor := 1\<rparr>))"

text \<open>
  The zoom operations a user can trigger on the viewer: the viewer's buttons
  (\<open>zoom_image 1.1\<close>, \<open>zoom_image 0.9\<close>), the mouse wheel, fit-to-viewport (the reset
  button and every resize), and the main window's zoom slots. An exception that escapes
  a slot leaves the state reached so far.
\<close>

datatype zoom_op =
    ZoomImage rat
  | Wheel int
  | FitToViewport
  | AppZoomIn
  | AppZoomOut

fun apply_zoom_op :: "viewer \<Rightarrow> zoom_op \<Rightarrow> viewer" where
  "apply_zoom_op v (ZoomImage factor) = zoom_image factor v"
| "apply_zoom_op v (Wheel delta_y) = handle_wheel delta_y v"
| "apply_zoom_op v FitToViewport = fst (fit_to_viewport v)"
| "apply_zoom_op v AppZoomIn = zoom_in v"
| "apply_zoom_op v AppZoomOut = zoom_out v"

definition apply_zoom_ops :: "viewer \<Rightarrow> zoom_op list \<Rightarrow> viewer" where
  "apply_zoom_ops v ops = foldl apply_zoom_op v ops"

text \<open>The operations that clamp: \<open>zoom_image\<close> and the wheel.\<close>

fun clamping_op :: "zoom_op \<Rightarrow> bool" where
  "clamping_op (ZoomImage factor) = True"
| "clamping_op (Wheel delta_y) = True"
| "clamping_op FitToViewport = False"
| "clamping_op AppZoomIn = False"
| "clamping_op AppZoomOut = False"

definition zoom_in_range :: "viewer \<Rightarrow> bool" where
  "zoom_in_range v \<longleftrightarrow> 1 / 10 \<le> zoom_factor v \<and> zoom_factor v \<le> 5"

text \<open>A 10 x 10 image shown at zoom 1 in an 800 x 600 viewport.\<close>

definition small_image_viewer :: viewer where
  "small_image_viewer =
     \<lparr>original_pixmap = Some \<lparr>pm_width = 10, pm_height = 10, pm_pixels = 0\<rparr>,
      zoom_factor = 1,
      label_pixmap = Some (\<lparr>pm_width = 10, pm_height = 10, pm_pixels = 0\<rparr>, 1),
      download_button_enabled = True, zoom_out_btn_enabled = True,
      zoom_reset_btn_enabled = True, zoom_in_btn_enabled = True,
      viewport_size = (800, 600)\<rparr>"

section \<open>Region picker (src/ui/screen\_picker.py)\<close>

text \<open>
  Points are (x, y) pairs of integers. The fields \<open>begin\<close> and \<open>end\<close> of the source
  are \<open>begin_pos\<close> and \<open>end_pos\<close> here, the coordinates that \<open>capture_selection\<close> reads
  from them; the mouse press and move handlers that set them are not part of the model.
  \<open>selection_rect\<close> is the pair of corner points the \<open>QRect\<close> was built from;
  \<open>overlay_visible\<close> is whether the overlay is shown.
\<close>

record picker =
  begin_pos :: "int \<times> int"
  end_pos :: "int \<times> int"
  is_drawing :: bool
  is_dragging :: bool
  drag_start :: "int \<times> int"
  selection_rect :: "(int \<times> int) \<times> (int \<times> int)"
  scroll_x :: int
  scroll_y :: int
  scroll_speed :: int
  overlay_visible :: bool

text \<open>The dictionary passed to \<open>sct.grab\<close>, and a monitor entry of \<open>sct.monitors\<close>.\<close>

record grab_rect =
  left :: int
  top :: int
  width :: int
  height :: int

text \<open>
  What the picker does to the outside world, in order. \<open>Grab r\<close> is the call of
  \<open>sct.grab\<close> with rectangle \<open>r\<close>, \<open>ImageCaptured img\<close> is the emission of the
  \<open>image_captured\<close> signal; debug logging is left out.
\<close>

datatype 'i picker_effect =
    Close
  | Hide
  | ProcessEvents
  | Sleep
  | Grab grab_rect
  | ImageCaptured 'i
  | LogError string

text \<open>
  The collaborators of \<open>capture_selection\<close>: the primary screen's geometry, the primary
  monitor \<open>sct.monitors[1]\<close> of a fresh \<open>mss\<close> instance, the grab itself, and the
  conversion of the screenshot to a BGR array. Each may raise.
\<close>

record 'i capture_env =
  screen_geometry :: "exn + grab_rect"
  primary_monitor :: "exn + grab_rect"
  sct_grab :: "grab_rect \<Rightarrow> exn + 'i"
  to_bgr :: "'i \<Rightarrow> exn + 'i"

text \<open>\<open>wheelEvent\<close>: the angle delta (x, y) and whether Ctrl is held. \<open>//\<close> is floor division.\<close>

definition wheelEvent :: "int \<times> int \<Rightarrow> bool \<Rightarrow> picker \<Rightarrow> picker" where
  "wheelEvent delta ctrl p =
     (if ctrl then p\<lparr>scroll_x := scroll_x p + fst delta div 120 * scroll_speed p\<rparr>
      else p\<lparr>scroll_y := scroll_y p + snd delta div 120 * scroll_speed p\<rparr>)"

text \<open>
  The \<open>except\<close> clause logs twice; the \<open>finally\<close> clause closes the overlay on every
  path, the early return of the size check included.
\<close>

definition capture_failed :: "exn \<Rightarrow> 'i picker_effect list" where
  "capture_failed e =
     [LogError (''Error capturing screen: '' @ str_of_exn e),
      LogError (''Error details: '' @ str_of_exn e),
      Close]"

definition capture_selection :: "'i capture_env \<Rightarrow> picker \<Rightarrow> picker \<times> 'i picker_effect list" where
  "capture_selection env p =
     (let x1 = min (fst (begin_pos p)) (fst (end_pos p)) - scroll_x p;
          y1 = min (snd (begin_pos p)) (snd (end_pos p)) - scroll_y p;
          x2 = max (fst (begin_pos p)) (fst (end_pos p)) - scroll_x p;
          y2 = max (snd (begin_pos p)) (snd (end_pos p)) - scroll_y p
      in
        if x2 - x1 < 10 \<or> y2 - y1 < 10 then (p\<lparr>overlay_visible := False\<rparr>, [Close, Close])
        else
          (p\<lparr>overlay_visible := False\<rparr>,
           (case screen_geometry env of
              Inl e \<Rightarrow> capture_failed e
            | Inr screen \<Rightarrow>
                [Hide, ProcessEvents, Sleep] @
                (case primary_monitor env of
                   Inl e \<Rightarrow> capture_failed e
                 | Inr monitor \<Rightarrow>
                     (let r = \<lparr>left = left monitor + x1, top = top monitor + y1,
                               width = x2 - x1, height = y2 - y1\<rparr>
                      in Grab r #
                         (case sct_grab env r of
                            Inl e \<Rightarrow> capture_failed e
                          | Inr screenshot \<Rightarrow>
                              (case to_bgr env screenshot of
                                 Inl e \<Rightarrow> capture_failed e
                               | Inr img \<Rightarrow> [ImageCaptured img, Close])))))))"

text \<open>\<open>mouseReleaseEvent\<close>; the flag says whether the button is the left one.\<close>

definition mouseReleaseEvent ::
  "'i capture_env \<Rightarrow> bool \<Rightarrow> picker \<Rightarrow> picker \<times> 'i picker_effect list" where
  "mouseReleaseEvent env left_button p =
     (if left_button then
        (if is_dragging p then (p\<lparr>is_dragging := False\<rparr>, [])
         else if is_drawing p then capture_selection env (p\<lparr>is_drawing := False\<rparr>)
         else (p, []))
      else (p, []))"

text \<open>
  The claim's wording of the grabbed rectangle, for comparison with the code: the
  selection rectangle with normalized corners, translated by the scroll offset (and the
  monitor's origin), then intersected with the monitor's bounds.
\<close>

definition intersect_rect :: "grab_rect \<Rightarrow> grab_rect \<Rightarrow> grab_rect" where
  "intersect_rect a b =
     (let l = max (left a) (left b); t = max (top a) (top b);
          r = min (left a + width a) (left b + width b);
          bt = min (top a + height a) (top b + height b)
      in \<lparr>left = l, top = t, width = max 0 (r - l), height = max 0 (bt - t)\<rparr>)"

definition rect_within :: "grab_rect \<Rightarrow> grab_rect \<Rightarrow> bool" where
  "rect_within a b \<longleftrightarrow>
     left b \<le> left a \<and> top b \<le> top a
     \<and> left a + width a \<le> left b + width b \<and> top a + height a \<le> top b + height b"

definition translated_selection :: "picker \<Rightarrow> grab_rect \<Rightarrow> grab_rect" where
  "translated_selection p monitor =
     \<lparr>left = left monitor + (min (fst (begin_pos p)) (fst (end_pos p)) - scroll_x p),
      top = top monitor + (min (snd (begin_pos p)) (snd (end_pos p)) - scroll_y p),
      width = \<bar>fst (end_pos p) - fst (begin_pos p)\<bar>,
      height = \<bar>snd (end_pos p) - snd (begin_pos p)\<bar>\<rparr>"

definition spec_grab_rect :: "picker \<Rightarrow> grab_rect \<Rightarrow> grab_rect" where
  "spec_grab_rect p monitor = intersect_rect (translated_selection p monitor) monitor"

text \<open>
  Concrete data: a 1920 x 1080 primary monitor at the origin whose grab and conversion
  succeed (an image is its rectangle), and a picker after \<open>__init__\<close>.
\<close>

definition full_hd :: grab_rect where
  "full_hd = \<lparr>left = 0, top = 0, width = 1920, height = 1080\<rparr>"

definition full_hd_env :: "grab_rect capture_env" where
  "full_hd_env =
     \<lparr>screen_geometry = Inr full_hd, primary_monitor = Inr full_hd,
      sct_grab = (\<lambda>r. Inr r), to_bgr = (\<lambda>i. Inr i)\<rparr>"

definition init_picker :: picker where
  "init_picker =
     \<lparr>begin_pos = (0, 0), end_pos = (0, 0), is_drawing = False, is_dragging = False,
      drag_start = (0, 0), selection_rect = ((0, 0), (0, 0)),
      scroll_x = 0, scroll_y = 0, scroll_speed = 20, overlay_visible = True\<rparr>"

text \<open>
  A 200 x 200 selection drawn at (100, 100), after one wheel event of 50 notches
  downwards.
\<close>

definition scrolled_picker :: picker where
  "scrolled_picker =
     wheelEvent (0, - 6000) False
       (init_picker\<lparr>begin_pos := (100, 100), end_pos := (300, 300), is_drawing := True\<rparr>)"

section \<open>Text-to-speech worker (src/core/tts.py)\<close>

text \<open>
  The worker's fields; \<open>text\<close> is \<open>tts_text\<close> here, and an engine instance is a number.
\<close>

record tts_thread =
  tts_text :: string
  tts_engine :: "nat option"
  stop_requested :: bool
  tts_is_running :: bool

text \<open>Signals, engine calls and log entries of the worker, in order.\<close>

datatype tts_effect =
    TtsStarted
  | TtsFinished
  | TtsSleep
  | TtsSay string
  | TtsRunAndWait
  | TtsEngineStop
  | TtsEngineInit
  | TtsSetProperty string
  | TtsLogError string

text \<open>
  What the speech engine does when called: \<open>say\<close>, \<open>runAndWait\<close>, \<open>stop\<close> and
  \<open>setProperty\<close> may raise, \<open>pyttsx3.init()\<close> raises or returns a new engine.
  \<open>stop_during_delay\<close> is the value of \<open>_stop_requested\<close> read after the delay: the
  interactive thread may have called \<open>stop\<close> meanwhile.
\<close>

record tts_env =
  stop_during_delay :: bool
  engine_say :: "string \<Rightarrow> exn option"
  engine_runAndWait :: "exn option"
  engine_stop :: "exn option"
  pyttsx3_init :: "exn + nat"
  engine_setProperty :: "string \<Rightarrow> exn option"

definition init_tts :: tts_thread where
  "init_tts = \<lparr>tts_text = [], tts_engine = None, stop_requested = False, tts_is_running = False\<rparr>"

definition set_text :: "string \<Rightarrow> tts_thread \<Rightarrow> tts_thread" where
  "set_text t st = st\<lparr>tts_text := t\<rparr>"

definition set_engine :: "nat option \<Rightarrow> tts_thread \<Rightarrow> tts_thread" where
  "set_engine engine st = st\<lparr>tts_engine := engine\<rparr>"

text \<open>
  The block that replaces the engine (in \<open>stop\<close> and in the \<open>except\<close> clause of
  \<open>run\<close>): a new engine is created and assigned, then its rate and volume are set; a
  failure at any point is logged and ends the block.
\<close>

definition reinit_engine :: "tts_env \<Rightarrow> tts_thread \<Rightarrow> tts_thread \<times> tts_effect list" where
  "reinit_engine env st =
     (case pyttsx3_init env of
        Inl e \<Rightarrow>
          (st, [TtsEngineInit, TtsLogError (''Error reinitializing TTS engine: '' @ str_of_exn e)])
      | Inr engine \<Rightarrow>
          (st\<lparr>tts_engine := Some engine\<rparr>,
           TtsEngineInit # TtsSetProperty ''rate'' #
           (case engine_setProperty env ''rate'' of
              Some e \<Rightarrow> [TtsLogError (''Error reinitializing TTS engine: '' @ str_of_exn e)]
            | None \<Rightarrow>
                TtsSetProperty ''volume'' #
                (case engine_setProperty env ''volume'' of
                   Some e \<Rightarrow> [TtsLogError (''Error reinitializing TTS engine: '' @ str_of_exn e)]
                 | None \<Rightarrow> []))))"

definition tts_stop :: "tts_env \<Rightarrow> tts_thread \<Rightarrow> tts_thread \<times> tts_effect list" where
  "tts_stop env st =
     (let st1 = st\<lparr>stop_requested := True, tts_is_running := False\<rparr>
      in case tts_engine st1 of
           None \<Rightarrow> (st1, [])
         | Some engine \<Rightarrow>
             (let (st2, es) = reinit_engine env st1
              in (st2,
                  TtsEngineStop #
                  (case engine_stop env of
                     Some e \<Rightarrow> [TtsLogError (''Error stopping TTS engine: '' @ str_of_exn e)]
                   | None \<Rightarrow> []) @ es)))"

text \<open>
  The \<open>except\<close> clause of \<open>run\<close>: log, stop the engine (any exception of the stop is
  swallowed), replace the engine.
\<close>

definition tts_run_except :: "tts_env \<Rightarrow> exn \<Rightarrow> tts_thread \<Rightarrow> tts_thread \<times> tts_effect list" where
  "tts_run_except env e st =
     (let (st1, es) = reinit_engine env st
      in (st1,
          TtsLogError (''Error in TTS thread: '' @ str_of_exn e) #
          (if tts_engine st \<noteq> None then [TtsEngineStop] else []) @ es))"

text \<open>The \<open>try\<close> body of \<open>run\<close> with its \<open>except\<close> clause.\<close>

definition tts_run_try :: "tts_env \<Rightarrow> tts_thread \<Rightarrow> tts_thread \<times> tts_effect list" where
  "tts_run_try env st =
     (if tts_engine st \<noteq> None \<and> tts_text st \<noteq> [] then
        (let st1 = st\<lparr>stop_requested := stop_during_delay env\<rparr>
         in if \<not> stop_requested st1 then
              (case engine_say env (tts_text st1) of
                 Some e \<Rightarrow>
                   (let (st2, es) = tts_run_except env e st1
                    in (st2, [TtsStarted, TtsSleep, TtsSay (tts_text st1)] @ es))
               | None \<Rightarrow>
                   (case engine_runAndWait env of
                      Some e \<Rightarrow>
                        (let (st2, es) = tts_run_except env e st1
                         in (st2, [TtsStarted, TtsSleep, TtsSay (tts_text st1), TtsRunAndWait] @ es))
                    | None \<Rightarrow> (st1, [TtsStarted, TtsSleep, TtsSay (tts_text st1), TtsRunAndWait])))
            else (st1, [TtsStarted, TtsSleep]))
      else (st, []))"

text \<open>
  \<open>run\<close>: the guard, the \<open>try\<close> statement, and the \<open>finally\<close> clause, which emits
  \<open>finished\<close> and stops the engine (an exception of that stop is swallowed).
\<close>

definition tts_run :: "tts_env \<Rightarrow> tts_thread \<Rightarrow> tts_thread \<times> tts_effect list" where
  "tts_run env st =
     (if tts_is_running st then (st, [])
      else
        (let (st1, es) = tts_run_try env (st\<lparr>stop_requested := False, tts_is_running := True\<rparr>)
         in (st1\<lparr>tts_is_running := False\<rparr>,
             es @ [TtsFinished] @ (if tts_engine st1 \<noteq> None then [TtsEngineStop] else []))))"

text \<open>
  The states of a worker: it is constructed, and then \<open>set_text\<close>, \<open>set_engine\<close>,
  \<open>stop\<close> and \<open>run\<close> are called on it, each call running to its end, with any
  behaviour of the engine.
\<close>

inductive tts_reachable :: "tts_thread \<Rightarrow> bool" where
  reach_init: "tts_reachable init_tts"
| reach_set_text: "tts_reachable st \<Longrightarrow> tts_reachable (set_text t st)"
| reach_set_engine: "tts_reachable st \<Longrightarrow> tts_reachable (set_engine engine st)"
| reach_stop: "tts_reachable st \<Longrightarrow> tts_reachable (fst (tts_stop env st))"
| reach_run: "tts_reachable st \<Longrightarrow> tts_reachable (fst (tts_run env st))"

text \<open>An engine whose \<open>say\<close> raises, and one that works.\<close>

definition failing_engine :: tts_env where
  "failing_engine =
     \<lparr>stop_during_delay = False, engine_say = (\<lambda>t. Some (Raised ''run loop already started'')),
      engine_runAndWait = None, engine_stop = None, pyttsx3_init = Inr 1,
      engine_setProperty = (\<lambda>n. None)\<rparr>"

section \<open>Language-pack manager (src/config.py, language slots of src/app.py)\<close>

text \<open>
  The keys of \<open>AVAILABLE_LANGUAGES\<close> (the display names), in the dictionary's order,
  with the code and the script of each.
\<close>

datatype lang = English | ChineseTraditional | Japanese | Korean | French | German

definition lang_names :: "lang list" where
  "lang_names = [English, ChineseTraditional, Japanese, Korean, French, German]"

fun lang_code :: "lang \<Rightarrow> string" where
  "lang_code English = ''en''"
| "lang_code ChineseTraditional = ''ch_tra''"
| "lang_code Japanese = ''ja''"
| "lang_code Korean = ''ko''"
| "lang_code French = ''fr''"
| "lang_code German = ''de''"

fun lang_script :: "lang \<Rightarrow> string" where
  "lang_script English = ''latin''"
| "lang_script ChineseTraditional = ''chinese''"
| "lang_script Japanese = ''japanese''"
| "lang_script Korean = ''korean''"
| "lang_script French = ''latin''"
| "lang_script German = ''latin''"

text \<open>Python's \<open>str.lower\<close> on ASCII letters and the substring test \<open>sub in s\<close>.\<close>

definition lower_char :: "char \<Rightarrow> char" where
  "lower_char c =
     (let n = (of_char c :: nat) in if 65 \<le> n \<and> n \<le> 90 then char_of (n + 32) else c)"

fun starts_with :: "string \<Rightarrow> string \<Rightarrow> bool" where
  "starts_with [] s = True"
| "starts_with (x # xs) [] = False"
| "starts_with (x # xs) (y # ys) = (x = y \<and> starts_with xs ys)"

fun str_contains :: "string \<Rightarrow> string \<Rightarrow> bool" where
  "str_contains sub [] = (sub = [])"
| "str_contains sub (c # cs) = (starts_with sub (c # cs) \<or> str_contains sub cs)"

text \<open>
  The part of the main window the language slots use: the checked state of each language
  checkbox, the in-flight download set, the download threads by language code, and the
  language list of the OCR reader of the processing thread.
\<close>

record lang_manager =
  lang_checkboxes :: "lang \<Rightarrow> bool"
  downloading_languages :: "string set"
  download_threads :: "string \<rightharpoonup> string"
  reader :: "string list"

datatype lang_effect =
    InformationBox string
  | WarningBox string
  | DownloadThreadStarted string
  | LangLogError string

text \<open>
  src/app.py calls \<open>easyocr.Reader\<close> in five places (to construct a reader for a
  language list and to probe an installed pack) and never imports \<open>easyocr\<close>: the
  modules it imports are listed at its top, and \<open>easyocr\<close> is imported by
  src/core/processing.py and src/core/language.py only. Evaluating the name in
  src/app.py therefore raises \<open>NameError\<close>, whatever the arguments; \<open>None\<close> would be
  a call that returns.
\<close>

definition easyocr_Reader :: "string list \<Rightarrow> exn option" where
  "easyocr_Reader langs = Some (NameError ''easyocr'')"

text \<open>
  The outside world of the language slots: creating and starting a download thread
  (\<open>LanguageDownloadThread\<close>, which src/app.py does import). \<open>None\<close> is success.
\<close>

record lang_env =
  create_thread :: "string \<Rightarrow> exn option"
  start_thread :: "string \<Rightarrow> exn option"

text \<open>The state after \<open>__init__\<close>: English and Chinese (Traditional) are checked.\<close>

definition init_lang_manager :: lang_manager where
  "init_lang_manager =
     \<lparr>lang_checkboxes = (\<lambda>l. l = English \<or> l = ChineseTraditional),
      downloading_languages = {}, download_threads = Map.empty,
      reader = [''en'', ''ch_tra'']\<rparr>"

definition start_language_download ::
  "lang_env \<Rightarrow> string \<Rightarrow> lang_manager \<Rightarrow> lang_manager \<times> lang_effect list" where
  "start_language_download env code st =
     (if code \<in> downloading_languages st \<or> code = ''en'' then (st, [])
      else
        (case easyocr_Reader [code] of
           None \<Rightarrow> (st, [])
         | Some e \<Rightarrow>
             if \<not> str_contains ''language pack'' (map lower_char (str_of_exn e)) then
               (st, [LangLogError (''Error checking language pack: '' @ str_of_exn e)])
             else
               (let st1 = st\<lparr>downloading_languages := insert code (downloading_languages st)\<rparr>
                in case create_thread env code of
                     Some e1 \<Rightarrow>
                       (st1\<lparr>downloading_languages := downloading_languages st1 - {code}\<rparr>,
                        [LangLogError (''Error starting language download: '' @ str_of_exn e1)])
                   | None \<Rightarrow>
                       (let st2 = st1\<lparr>download_threads := (download_threads st1)(code \<mapsto> code)\<rparr>
                        in case start_thread env code of
                             Some e2 \<Rightarrow>
                               (st2\<lparr>downloading_languages := downloading_languages st2 - {code}\<rparr>,
                                [LangLogError
                                   (''Error starting language download: '' @ str_of_exn e2)])
                           | None \<Rightarrow>
                               (st2, [DownloadThreadStarted code,
                                      InformationBox ''Language Pack Download''])))))"

definition on_language_download_complete ::
  "string \<Rightarrow> lang_manager \<Rightarrow> lang_manager \<times> lang_effect list" where
  "on_language_download_complete code st =
     (st\<lparr>downloading_languages := downloading_languages st - {code},
         download_threads := (download_threads st)(code := None)\<rparr>,
      [InformationBox ''Download Complete''])"

definition on_language_download_error ::
  "string \<Rightarrow> string \<Rightarrow> lang_manager \<Rightarrow> lang_manager \<times> lang_effect list" where
  "on_language_download_error code error st =
     (st\<lparr>downloading_languages := downloading_languages st - {code},
         download_threads := (download_threads st)(code := None)\<rparr>,
      [WarningBox ''Download Error''])"

text \<open>The loop \<open>for lang_code in selected_languages: ... start_language_download\<close>.\<close>

fun start_downloads ::
  "lang_env \<Rightarrow> string list \<Rightarrow> lang_manager \<Rightarrow> lang_manager \<times> lang_effect list" where
  "start_downloads env [] st = (st, [])"
| "start_downloads env (code # codes) st =
     (if code \<noteq> ''en'' then
        (let (st1, es1) = start_language_download env code st;
             (st2, es2) = start_downloads env codes st1
         in (st2, es1 @ es2))
      else start_downloads env codes st)"

text \<open>
  Every checkbox has \<open>stateChanged\<close> connected to \<open>on_language_changed\<close>, so a
  \<open>setChecked\<close> that changes the state runs the slot again, to its end, before the caller
  continues. The result of a slot is the state, the effects, and the exception that
  escapes it, if any (which ends everything); \<open>None\<close> stands for a nesting deeper than
  the fuel allows. \<open>setChecked\<close> takes the slot it dispatches to.
\<close>

type_synonym lang_result = "lang_manager \<times> lang_effect list \<times> exn option"

definition then_slot ::
  "lang_result option \<Rightarrow> (lang_manager \<Rightarrow> lang_result option) \<Rightarrow> lang_result option" where
  "then_slot r f =
     (case r of
        None \<Rightarrow> None
      | Some (st, es, Some e) \<Rightarrow> Some (st, es, Some e)
      | Some (st, es, None) \<Rightarrow>
          (case f st of
             None \<Rightarrow> None
           | Some (st1, es1, x) \<Rightarrow> Some (st1, es @ es1, x)))"

definition setChecked ::
  "(lang_manager \<Rightarrow> lang_result option) \<Rightarrow> lang \<Rightarrow> bool \<Rightarrow> lang_manager \<Rightarrow> lang_result option" where
  "setChecked slot l b st =
     (if lang_checkboxes st l = b then Some (st, [], None)
      else slot (st\<lparr>lang_checkboxes := (lang_checkboxes st)(l := b)\<rparr>))"

fun setChecked_each ::
  "(lang_manager \<Rightarrow> lang_result option) \<Rightarrow> (lang \<times> bool) list \<Rightarrow> lang_manager
     \<Rightarrow> lang_result option" where
  "setChecked_each slot [] st = Some (st, [], None)"
| "setChecked_each slot ((l, b) # rest) st =
     then_slot (setChecked slot l b st) (setChecked_each slot rest)"

text \<open>
  The outermost \<open>except\<close> clause: it logs and constructs the English reader once more;
  an exception of that construction escapes the slot.
\<close>

definition outer_fallback :: "lang_env \<Rightarrow> exn \<Rightarrow> lang_manager \<Rightarrow> lang_result option" where
  "outer_fallback env e st =
     (case easyocr_Reader [''en''] of
        None \<Rightarrow> Some (st\<lparr>reader := [''en'']\<rparr>,
                      [LangLogError (''Error in language selection: '' @ str_of_exn e)], None)
      | Some e1 \<Rightarrow> Some (st, [LangLogError (''Error in language selection: '' @ str_of_exn e)],
                        Some e1))"

text \<open>\<open>self.processing_thread.reader = easyocr.Reader(["en"], gpu=True)\<close> inside the inner handler.\<close>

definition english_reader :: "lang_env \<Rightarrow> lang_manager \<Rightarrow> lang_result option" where
  "english_reader env st =
     (case easyocr_Reader [''en''] of
        None \<Rightarrow> Some (st\<lparr>reader := [''en'']\<rparr>, [], None)
      | Some e \<Rightarrow> outer_fallback env e st)"

text \<open>The inner \<open>try\<close> statement: downloads, the new reader, and its \<open>except\<close> clause.\<close>

definition update_reader ::
  "(lang_manager \<Rightarrow> lang_result option) \<Rightarrow> lang_env \<Rightarrow> string list \<Rightarrow> lang_manager
     \<Rightarrow> lang_result option" where
  "update_reader slot env selected_languages st =
     (let (st1, es1) = start_downloads env selected_languages st
      in case easyocr_Reader selected_languages of
           None \<Rightarrow>
             Some (st1\<lparr>reader := selected_languages\<rparr>,
                   es1 @ (if length selected_languages > 1
                          then [InformationBox ''Language Selection''] else []),
                   None)
         | Some e \<Rightarrow>
             (if str_contains ''is only compatible with English'' (str_of_exn e) then
                then_slot
                  (then_slot
                     (Some (st1, es1 @ [LangLogError (''Error updating languages: '' @ str_of_exn e),
                                        WarningBox ''Language Compatibility''], None))
                     (setChecked_each slot (map (\<lambda>l. (l, l = English)) lang_names)))
                  (english_reader env)
              else
                then_slot
                  (Some (st1, es1 @ [LangLogError (''Error updating languages: '' @ str_of_exn e),
                                     WarningBox ''Language Selection Error''], None))
                  (english_reader env)))"

definition asian_langs :: "lang list" where
  "asian_langs = [ChineseTraditional, Japanese, Korean]"

text \<open>
  The body of \<open>on_language_changed\<close>. The lists \<open>selected_languages\<close> and
  \<open>selected_asian\<close> are read from the checkboxes before any of them is changed;
  \<open>last_selected\<close> is \<open>last selected_asian\<close>, \<open>unchecked\<close> is the loop that unchecks
  the other Asian languages, \<open>selected1\<close> the language list after it. The test \<open>other_langs[0] in AVAILABLE_LANGUAGES.values()\<close> compares a code with the
  dictionaries of codes and scripts and is never true, so the branch under it is absent.
\<close>

definition on_language_changed_body ::
  "(lang_manager \<Rightarrow> lang_result option) \<Rightarrow> lang_env \<Rightarrow> lang_manager \<Rightarrow> lang_result option" where
  "on_language_changed_body slot env st =
     (let english_selected = lang_checkboxes st English;
          selected_languages = map lang_code (filter (lang_checkboxes st) lang_names)
      in
        if selected_languages = [] then
          then_slot (setChecked slot English True st) (update_reader slot env [''en''])
        else
          (let selected_asian = filter (lang_checkboxes st) asian_langs;
               unchecked =
                 (if length selected_asian > 1 then
                    setChecked_each slot
                      (map (\<lambda>l. (l, False))
                         (filter (\<lambda>l. l \<noteq> last selected_asian) asian_langs)) st
                  else Some (st, [], None));
               selected1 =
                 (if length selected_asian > 1 then
                    (if english_selected then [''en''] else []) @ [lang_code (last selected_asian)]
                  else selected_languages)
           in
             if english_selected \<and> length selected1 > 2 then
               (case filter (\<lambda>c. c \<noteq> ''en'') selected1 of
                  [] \<Rightarrow> then_slot unchecked (outer_fallback env IndexError)
                | other # others \<Rightarrow>
                    then_slot
                      (then_slot unchecked
                         (setChecked_each slot
                            (map (\<lambda>l. (l, False)) (filter (\<lambda>l. l \<noteq> English) lang_names))))
                      (update_reader slot env [''en'', other]))
             else if \<not> english_selected \<and> length selected1 > 1 then
               (let first_lang = hd selected1
                in then_slot
                     (then_slot unchecked
                        (setChecked_each slot (map (\<lambda>l. (l, lang_code l = first_lang)) lang_names)))
                     (update_reader slot env [first_lang]))
             else then_slot unchecked (update_reader slot env selected1)))"

text \<open>The slot itself; the first argument bounds the nesting of signal deliveries.\<close>

primrec on_language_changed :: "nat \<Rightarrow> lang_env \<Rightarrow> lang_manager \<Rightarrow> lang_result option" where
  "on_language_changed 0 env st = None"
| "on_language_changed (Suc n) env st =
     on_language_changed_body (on_language_changed n env) env st"

text \<open>The user clicks a checkbox: its state flips and \<open>stateChanged\<close> is delivered.\<close>

definition user_toggles :: "nat \<Rightarrow> lang_env \<Rightarrow> lang \<Rightarrow> lang_manager \<Rightarrow> lang_result option" where
  "user_toggles n env l st =
     setChecked (on_language_changed n env) l (\<not> lang_checkboxes st l) st"

text \<open>
  Download threads that can be created and started; and a manager in which a download
  of the Japanese pack is in flight.
\<close>

definition threads_start :: lang_env where
  "threads_start = \<lparr>create_thread = (\<lambda>code. None), start_thread = (\<lambda>code. None)\<rparr>"

definition japanese_in_flight :: lang_manager where
  "japanese_in_flight =
     init_lang_manager\<lparr>downloading_languages := {''ja''},
       download_threads := [''ja'' \<mapsto> ''ja'']\<rparr>"

section \<open>Processing worker (src/core/processing.py, src/utils/ocr.py)\<close>

text \<open>
  An OCR detection is a polygon (a list of corner points), the recognized text and the
  confidence; an entry of \<open>text_positions\<close> is the dictionary with the keys \<open>text\<close>,
  \<open>x\<close>, \<open>y\<close> and \<open>confidence\<close>. Coordinates and confidences are Python numbers,
  modelled as exact rationals.
\<close>

type_synonym point = "rat \<times> rat"

type_synonym detection = "point list \<times> string \<times> rat"

record text_position =
  pos_text :: string
  pos_x :: rat
  pos_y :: rat
  confidence :: rat

text \<open>
  The collaborators of the worker, each of which may raise: \<open>img.copy()\<close>; the OpenCV
  steps inside \<open>preprocess_image_for_ocr\<close>; \<open>self.reader.readtext\<close>; the drawing of
  one polygon (\<open>np.array\<close>, \<open>reshape\<close>, \<open>cv2.polylines\<close>); the drawing of one text
  at a pixel position (the conversions to and from PIL, the font, both \<open>draw.text\<close>
  calls); the captioning of an image (colour conversion, processor, \<open>generate\<close>,
  \<open>batch_decode\<close>); and the chat request for an API key and a prompt (the client, the
  request, and \<open>response.choices[0].message.content.strip()\<close>). \<open>openai_api_key\<close> is
  \<open>os.getenv("OPENAI_API_KEY")\<close>.
\<close>

record 'i worker_env =
  copy_image :: "'i \<Rightarrow> exn + 'i"
  preprocess_steps :: "'i \<Rightarrow> exn + 'i"
  readtext :: "'i \<Rightarrow> exn + detection list"
  draw_polylines :: "'i \<Rightarrow> point list \<Rightarrow> exn + 'i"
  draw_text :: "'i \<Rightarrow> int \<times> int \<Rightarrow> string \<Rightarrow> exn + 'i"
  caption :: "'i \<Rightarrow> exn + string"
  openai_api_key :: "string option"
  chat_completion :: "string \<Rightarrow> string \<Rightarrow> exn + string"

text \<open>\<open>preprocess_image_for_ocr\<close> returns the original image if any step raises.\<close>

definition preprocess_image_for_ocr :: "'i worker_env \<Rightarrow> 'i \<Rightarrow> 'i" where
  "preprocess_image_for_ocr env img =
     (case preprocess_steps env img of
        Inl e \<Rightarrow> img
      | Inr enhanced \<Rightarrow> enhanced)"

text \<open>Python's \<open>int()\<close> of a number truncates towards zero.\<close>

definition py_int :: "rat \<Rightarrow> int" where
  "py_int r = (if r < 0 then \<lceil>r\<rceil> else \<lfloor>r\<rfloor>)"

text \<open>
  The loop over the detections, on the drawn image, the list \<open>extracted_text\<close> and the
  list \<open>text_positions\<close>. \<open>x, y = bbox[0]\<close> raises \<open>IndexError\<close> for an empty polygon.
\<close>

fun ocr_loop ::
  "'i worker_env \<Rightarrow> detection list \<Rightarrow> 'i \<times> string list \<times> text_position list
     \<Rightarrow> exn + ('i \<times> string list \<times> text_position list)" where
  "ocr_loop env [] acc = Inr acc"
| "ocr_loop env ((bbox, txt, prob) # results) (drawn_img, extracted_text, text_positions) =
     (if prob > 1 / 2 then
        (case draw_polylines env drawn_img bbox of
           Inl e \<Rightarrow> Inl e
         | Inr drawn1 \<Rightarrow>
             (let x_center = sum_list (map fst bbox) / 4;
                  y_center = sum_list (map snd bbox) / 4;
                  text_positions1 =
                    text_positions @
                    [\<lparr>pos_text = txt, pos_x = x_center, pos_y = y_center, confidence = prob\<rparr>]
              in case bbox of
                   [] \<Rightarrow> Inl IndexError
                 | (x, y) # corners \<Rightarrow>
                     (case draw_text env drawn1 (py_int x, py_int (y - 25)) txt of
                        Inl e \<Rightarrow> Inl e
                      | Inr drawn2 \<Rightarrow>
                          ocr_loop env results
                            (drawn2, extracted_text @ [txt], text_positions1))))
      else ocr_loop env results (drawn_img, extracted_text, text_positions))"

text \<open>\<open>sep.join(xs)\<close>.\<close>

fun join_with :: "string \<Rightarrow> string list \<Rightarrow> string" where
  "join_with sep [] = []"
| "join_with sep [x] = x"
| "join_with sep (x # y # ys) = x @ sep @ join_with sep (y # ys)"

text \<open>
  The \<open>try\<close> body of \<open>extract_text_from_image\<close>, and the function with its
  \<open>except\<close> clause. \<open>list.sort\<close> with a key is stable, as \<open>sort_key\<close> is, and
  tuples are compared lexicographically.
\<close>

definition extract_text_try ::
  "'i worker_env \<Rightarrow> 'i \<Rightarrow> exn + (string \<times> 'i \<times> text_position list)" where
  "extract_text_try env img =
     (case copy_image env img of
        Inl e \<Rightarrow> Inl e
      | Inr drawn_img \<Rightarrow>
          (case readtext env (preprocess_image_for_ocr env img) of
             Inl e \<Rightarrow> Inl e
           | Inr results \<Rightarrow>
               (case ocr_loop env results (drawn_img, [], []) of
                  Inl e \<Rightarrow> Inl e
                | Inr (drawn, extracted_text, text_positions) \<Rightarrow>
                    Inr (join_with '' '' extracted_text, drawn,
                         sort_key (\<lambda>p. (pos_y p, pos_x p)) text_positions))))"

definition extract_text_from_image ::
  "'i worker_env \<Rightarrow> 'i \<Rightarrow> string \<times> 'i \<times> text_position list" where
  "extract_text_from_image env img =
     (case extract_text_try env img of
        Inl e \<Rightarrow> ([], img, [])
      | Inr r \<Rightarrow> r)"

text \<open>Decimal digits of an integer, as \<open>str\<close> prints them in an f-string.\<close>

function show_nat :: "nat \<Rightarrow> string" where
  "show_nat n =
     (if n < 10 then [char_of (48 + n)] else show_nat (n div 10) @ [char_of (48 + n mod 10)])"
  by pat_completeness auto
termination
  by (relation "measure (\<lambda>n. n)") auto

definition show_int :: "int \<Rightarrow> string" where
  "show_int i = (if i < 0 then CHR ''-'' # show_nat (nat (- i)) else show_nat (nat i))"

definition format_position :: "text_position \<Rightarrow> string" where
  "format_position pos =
     ''Text: '' @ [CHR 0x27] @ pos_text pos @ [CHR 0x27] @ '' at position (x: ''
     @ show_int (py_int (pos_x pos)) @ '', y: '' @ show_int (py_int (pos_y pos)) @ '')''"

definition format_positions :: "text_position list \<Rightarrow> string" where
  "format_positions text_positions = join_with [CHR 0x0A] (map format_position text_positions)"

text \<open>The two f-strings of \<open>run\<close>; non-ASCII characters are their UTF-8 bytes.\<close>

definition prompt_text :: "string \<Rightarrow> string \<Rightarrow> string" where
  "prompt_text text_positions_str vision_text =
     ''You are looking at a screenshot that contains both text and visual elements. Your task is to describe what you see by combining the visible text and visuals to provide an accurate explanation.'' @ [CHR 0x0A] @
     [CHR 0x0A] @
     ''Text Content with Positions:'' @ [CHR 0x0A] @
     text_positions_str @
     [CHR 0x0A] @
     ''Please group text that appears close together and likely relates to the same topic.'' @ [CHR 0x0A] @
     [CHR 0x0A] @
     ''Visual Description:'' @ [CHR 0x0A] @
     vision_text @
     [CHR 0x0A] @
     [CHR 0x0A] @
     ''Instructions:'' @ [CHR 0x0A] @
     ''1. ONLY describe what is clearly visible in the data provided.'' @ [CHR 0x0A] @
     ''2. Focus on identifying the type of interface or application shown.'' @ [CHR 0x0A] @
     ''3. Group and organize the text based on where it appears (top to bottom, left to right).'' @ [CHR 0x0A] @
     ''4. Use the positions of the text to understand how elements relate to each other.'' @ [CHR 0x0A] @
     ''5. Pull out and structure the most important information in a logical order.'' @ [CHR 0x0A] @
     ''6. If there are different sections or paragraphs, present them clearly and separately.'' @ [CHR 0x0A] @
     ''7. Do NOT guess or add information not supported by what you see.'' @ [CHR 0x0A] @
     ''8. If anything is unclear, feel free to acknowledge the uncertainty.'' @ [CHR 0x0A] @
     ''9. there might be typo or partial character misread by ocr, you should either correct them or ignore them.'' @ [CHR 0x0A] @
     ''Your final response should:'' @ [CHR 0x0A] @
     ''1. Identify the type of interface or application shown.'' @ [CHR 0x0A] @
     ''2. Group related text based on their placement.'' @ [CHR 0x0A] @
     ''3. Present all important content in a well-organized way.'' @ [CHR 0x0A] @
     ''4. Highlight the key details and messages.'' @ [CHR 0x0A] @
     ''5. Keep the original meaning and context intact.'' @ [CHR 0x0A] @
     [CHR 0x0A] @
     ''Please make your answer sound like a natural conversation, suitable for anyone aged 10 to 60. Talk as if you'' @ [CHR 0x27] @ ''re describing the screenshot to a friend'' @ [CHR 0xE2, CHR 0x80, CHR 0x94] @ ''clearly, thoroughly, and without mentioning any technical terms like OCR or analysis. Make it as detailed as possible, but only include what'' @ [CHR 0x27] @ ''s relevant to the screenshot.'' @ [CHR 0x0A]"

definition prompts_text :: "string \<Rightarrow> string \<Rightarrow> string \<Rightarrow> string" where
  "prompts_text text_positions_str vision_text prompt =
     [CHR 0xF0, CHR 0x9F, CHR 0x94, CHR 0x8D] @ '' OCR Analysis Results:'' @ [CHR 0x0A] @
     text_positions_str @
     [CHR 0x0A] @
     [CHR 0x0A] @
     [CHR 0xF0, CHR 0x9F, CHR 0x91, CHR 0x81, CHR 0xEF, CHR 0xB8, CHR 0x8F] @ '' Visual Analysis Results:'' @ [CHR 0x0A] @
     vision_text @
     [CHR 0x0A] @
     [CHR 0x0A] @
     [CHR 0xF0, CHR 0x9F, CHR 0xA4, CHR 0x96] @ '' GPT-4 Analysis Prompt:'' @ [CHR 0x0A] @
     prompt"

text \<open>The texts of the signals of \<open>run\<close>.\<close>

definition msg_running_ocr :: string where
  "msg_running_ocr = [CHR 0x0A, CHR 0xF0, CHR 0x9F, CHR 0x94, CHR 0x8D] @ '' Running OCR analysis...''"

definition msg_ocr_complete :: string where
  "msg_ocr_complete =
     [CHR 0xE2, CHR 0x9C, CHR 0x85] @ '' OCR Analysis Complete'' @ [CHR 0x0A, CHR 0x0A, CHR 0xF0, CHR 0x9F, CHR 0x93, CHR 0x9D] @ '' Extracted Text:'' @ [CHR 0x0A]"

definition msg_no_model :: string where
  "msg_no_model = [CHR 0xE2, CHR 0x9D, CHR 0x8C] @ '' Error: Vision model not initialized''"

definition msg_running_visual :: string where
  "msg_running_visual = [CHR 0x0A, CHR 0xF0, CHR 0x9F, CHR 0x91, CHR 0x81, CHR 0xEF, CHR 0xB8, CHR 0x8F] @ '' Running Visual Analysis...''"

definition msg_visual_complete :: string where
  "msg_visual_complete =
     [CHR 0xE2, CHR 0x9C, CHR 0x85] @ '' Visual Analysis Complete'' @ [CHR 0x0A, CHR 0x0A, CHR 0xF0, CHR 0x9F, CHR 0x8E, CHR 0xAF] @ '' Visual Description:'' @ [CHR 0x0A]"

definition msg_no_key :: string where
  "msg_no_key = [CHR 0xE2, CHR 0x9D, CHR 0x8C] @ '' Error: OPENAI_API_KEY not set in environment.''"

definition msg_running_ai :: string where
  "msg_running_ai = [CHR 0x0A, CHR 0xF0, CHR 0x9F, CHR 0xA4, CHR 0x96] @ '' Running AI Analysis...''"

definition msg_prompts :: string where
  "msg_prompts = [CHR 0xE2, CHR 0x9C, CHR 0x85] @ '' Analysis Prompts'' @ [CHR 0x0A, CHR 0x0A]"

definition msg_ai_complete :: string where
  "msg_ai_complete =
     [CHR 0xE2, CHR 0x9C, CHR 0x85] @ '' AI Analysis Complete'' @ [CHR 0x0A, CHR 0x0A, CHR 0xF0, CHR 0x9F, CHR 0x93, CHR 0x8A] @ '' Final Analysis:'' @ [CHR 0x0A]"

definition msg_check_tabs :: string where
  "msg_check_tabs =
     [CHR 0x0A, CHR 0xE2, CHR 0x9C, CHR 0xA8] @ '' Check the tabs above for detailed processing steps.''"

text \<open>
  The worker's fields that \<open>run\<close> reads (whether the captioning model and its processor
  are loaded), and the signals it emits: \<open>error\<close>, \<open>progress\<close>, \<open>tab_update\<close> (tab
  index, image, text) and \<open>finished\<close>.
\<close>

record 'i processing_thread =
  img :: "'i option"
  model_loaded :: bool
  processor_loaded :: bool

datatype 'i event =
    ErrorEv string
  | ProgressEv string
  | TabUpdate nat 'i string
  | FinishedEv string

text \<open>
  Step 3 of \<open>run\<close>, from the API key on. A failing request does not leave the inner
  \<open>try\<close>: its message becomes the final analysis.
\<close>

definition llm_stage ::
  "'i worker_env \<Rightarrow> 'i \<Rightarrow> text_position list \<Rightarrow> string \<Rightarrow> 'i event list" where
  "llm_stage env drawn_img text_positions vision_text =
     (case openai_api_key env of
        None \<Rightarrow> [ErrorEv msg_no_key]
      | Some key \<Rightarrow>
          if key = [] then [ErrorEv msg_no_key]
          else
            (let text_positions_str = format_positions text_positions;
                 prompt = prompt_text text_positions_str vision_text;
                 final_analysis =
                   (case chat_completion env key prompt of
                      Inl e \<Rightarrow> ''Error: '' @ str_of_exn e
                    | Inr content \<Rightarrow> content)
             in [ProgressEv msg_running_ai,
                 TabUpdate 1 drawn_img
                   (msg_prompts @ prompts_text text_positions_str vision_text prompt),
                 TabUpdate 2 drawn_img (msg_ai_complete @ final_analysis),
                 ProgressEv msg_check_tabs,
                 FinishedEv final_analysis]))"

text \<open>
  Step 2 of \<open>run\<close> and what follows it. An exception of the captioning reaches the
  \<open>except\<close> clause of \<open>run\<close>.
\<close>

definition vision_stage ::
  "'i worker_env \<Rightarrow> 'i processing_thread \<Rightarrow> 'i \<Rightarrow> text_position list \<Rightarrow> 'i event list" where
  "vision_stage env st drawn_img text_positions =
     (if \<not> model_loaded st \<or> \<not> processor_loaded st then
        [ErrorEv msg_no_model]
      else
        ProgressEv msg_running_visual #
        (case caption env drawn_img of
           Inl e \<Rightarrow> [ErrorEv (''Error in processing thread: '' @ str_of_exn e)]
         | Inr vision_text \<Rightarrow>
             TabUpdate 0 drawn_img (msg_visual_complete @ vision_text) #
             llm_stage env drawn_img text_positions vision_text))"

definition run :: "'i worker_env \<Rightarrow> 'i processing_thread \<Rightarrow> 'i event list" where
  "run env st =
     (case img st of
        None \<Rightarrow> [ErrorEv ''No image to process'']
      | Some i \<Rightarrow>
          (let (ocr_text, drawn_img, text_positions) = extract_text_from_image env i
           in ProgressEv msg_running_ocr #
              TabUpdate 0 drawn_img (msg_ocr_complete @ ocr_text) #
              vision_stage env st drawn_img text_positions))"

text \<open>Which events are errors, and which carry the final analysis.\<close>

fun is_error :: "'i event \<Rightarrow> bool" where
  "is_error (ErrorEv msg) = True"
| "is_error ev = False"

fun is_final_analysis :: "'i event \<Rightarrow> bool" where
  "is_final_analysis (FinishedEv t) = True"
| "is_final_analysis (TabUpdate n i t) = (n = 2)"
| "is_final_analysis ev = False"

text \<open>
  The claim's wording of a position: the recognized text at the arithmetic mean of the
  polygon's corner coordinates; and the detections that are kept.
\<close>

definition mean :: "rat list \<Rightarrow> rat" where
  "mean xs = sum_list xs / of_nat (length xs)"

definition center_position :: "detection \<Rightarrow> text_position" where
  "center_position d =
     (case d of (bbox, txt, prob) \<Rightarrow>
        \<lparr>pos_text = txt, pos_x = mean (map fst bbox), pos_y = mean (map snd bbox),
         confidence = prob\<rparr>)"

definition accepted :: "detection \<Rightarrow> bool" where
  "accepted d = (case d of (bbox, txt, prob) \<Rightarrow> prob > 1 / 2)"

text \<open>
  Concrete data. Images are numbers: copying keeps the image, each drawing adds 1.
  \<open>working_env\<close> has every collaborator succeed; the engine returns ``World'' (lower on
  the screen, confidence 0.6) before ``Hello'' (confidence 0.9) and a third detection of
  confidence 0.5.
\<close>

definition two_detections :: "detection list" where
  "two_detections =
     [([(0, 390), (20, 390), (20, 410), (0, 410)], ''World'', 6 / 10),
      ([(0, 0), (20, 0), (20, 20), (0, 20)], ''Hello'', 9 / 10),
      ([(50, 50), (60, 50), (60, 60), (50, 60)], ''noise'', 1 / 2)]"

definition working_env :: "nat worker_env" where
  "working_env =
     \<lparr>copy_image = (\<lambda>i. Inr i), preprocess_steps = (\<lambda>i. Inr (i + 100)),
      readtext = (\<lambda>i. Inr two_detections),
      draw_polylines = (\<lambda>i bbox. Inr (i + 1)), draw_text = (\<lambda>i pos t. Inr (i + 1)),
      caption = (\<lambda>i. Inr ''a screenshot of a greeting''),
      openai_api_key = Some ''sk-test'',
      chat_completion = (\<lambda>key prompt. Inr ''The screen says Hello World.'')\<rparr>"

definition loaded_worker :: "nat processing_thread" where
  "loaded_worker = \<lparr>img = Some 7, model_loaded = True, processor_loaded = True\<rparr>"

text \<open>Environments in which one collaborator raises.\<close>

definition preprocess_fails_env :: "nat worker_env" where
  "preprocess_fails_env =
     working_env\<lparr>preprocess_steps := (\<lambda>i. Inl (Raised ''OpenCV: unsupported format''))\<rparr>"

definition draw_fails_env :: "nat worker_env" where
  "draw_fails_env =
     working_env\<lparr>draw_text := (\<lambda>i pos t. Inl (Raised ''cannot convert image''))\<rparr>"

definition readtext_fails_env :: "nat worker_env" where
  "readtext_fails_env =
     working_env\<lparr>readtext := (\<lambda>i. Inl (Raised ''reader is not initialized''))\<rparr>"

definition caption_fails_env :: "nat worker_env" where
  "caption_fails_env =
     working_env\<lparr>caption := (\<lambda>i. Inl (Raised ''CUDA out of memory''))\<rparr>"

definition llm_fails_env :: "nat worker_env" where
  "llm_fails_env =
     working_env\<lparr>chat_completion := (\<lambda>key prompt. Inl (Raised ''Connection error.''))\<rparr>"

section \<open>Theorems: image viewer\<close>

lemma clamp_zoom_bounds: "1 / 10 \<le> clamp_zoom z \<and> clamp_zoom z \<le> 5"
  by (simp add: clamp_zoom_def)

lemma clamp_zoom_idem: "clamp_zoom (clamp_zoom z) = clamp_zoom z"
  by (simp add: clamp_zoom_def)

lemma update_image_zoom [simp]: "zoom_factor (update_image v) = zoom_factor v"
  by (simp add: update_image_def split: option.splits)

lemma update_image_pixmap [simp]: "original_pixmap (update_image v) = original_pixmap v"
  by (simp add: update_image_def split: option.splits)

lemma clamping_op_pixmap:
  "clamping_op z \<Longrightarrow> original_pixmap (apply_zoom_op v z) = original_pixmap v"
  by (cases z) (simp_all add: zoom_image_def handle_wheel_def Let_def split: option.splits)

lemma zoom_in_range_clamped: "zoom_in_range (update_image (v\<lparr>zoom_factor := clamp_zoom z\<rparr>))"
  using clamp_zoom_bounds [of z] by (simp add: zoom_in_range_def)

lemma clamping_op_in_range:
  assumes "clamping_op z" and "original_pixmap v \<noteq> None \<or> zoom_in_range v"
  shows "zoom_in_range (apply_zoom_op v z)"
proof (cases "original_pixmap v")
  case None
  with assms have "zoom_in_range v" by simp
  moreover from None assms(1) have "apply_zoom_op v z = v"
    by (cases z) (simp_all add: zoom_image_def handle_wheel_def)
  ultimately show ?thesis by simp
next
  case (Some pm)
  with assms(1) show ?thesis
    by (cases z) (simp_all add: zoom_image_def handle_wheel_def Let_def zoom_in_range_clamped)
qed

lemma clamping_ops_in_range:
  "list_all clamping_op ops \<Longrightarrow> zoom_in_range v \<Longrightarrow> zoom_in_range (foldl apply_zoom_op v ops)"
  by (induction ops arbitrary: v) (simp_all add: clamping_op_in_range)

text \<open>
  C2 (as amended). For every sequence of \<open>zoom_image\<close> calls (the viewer's zoom-in and
  zoom-out buttons) and wheel zooms, applied to a viewer that holds a bitmap (and at least
  one operation) or whose zoom factor is already in range, the resulting zoom factor lies
  in [0.1, 5.0]; and the clamp is idempotent. Fit-to-viewport does not clamp: on a
  viewer \<open>w\<close> whose bitmap has a non-zero width and height it sets the zoom factor to
  the smaller of viewport width / image width and viewport height / image height. The
  main window's zoom slots are not covered.
\<close>

theorem zoom_clamped_in_range:
  assumes "list_all clamping_op ops"
    and "zoom_in_range v \<or> (ops \<noteq> [] \<and> original_pixmap v \<noteq> None)"
  shows "1 / 10 \<le> zoom_factor (apply_zoom_ops v ops)
         \<and> zoom_factor (apply_zoom_ops v ops) \<le> 5
         \<and> clamp_zoom (clamp_zoom z) = clamp_zoom z
         \<and> (original_pixmap w = Some pm \<and> pm_width pm \<noteq> 0 \<and> pm_height pm \<noteq> 0 \<longrightarrow>
              zoom_factor (apply_zoom_ops w [FitToViewport])
                = min (of_int (fst (viewport_size w)) / of_int (pm_width pm))
                      (of_int (snd (viewport_size w)) / of_int (pm_height pm)))"
proof -
  have fit: "original_pixmap w = Some pm \<and> pm_width pm \<noteq> 0 \<and> pm_height pm \<noteq> 0 \<longrightarrow>
              zoom_factor (apply_zoom_ops w [FitToViewport])
                = min (of_int (fst (viewport_size w)) / of_int (pm_width pm))
                      (of_int (snd (viewport_size w)) / of_int (pm_height pm))"
    by (simp add: apply_zoom_ops_def fit_to_viewport_def Let_def)
  have "zoom_in_range (foldl apply_zoom_op v ops)"
  proof (cases "zoom_in_range v")
    case True
    with assms(1) show ?thesis by (simp add: clamping_ops_in_range)
  next
    case False
    with assms(2) obtain z' zs where ops: "ops = z' # zs" and pm: "original_pixmap v \<noteq> None"
      by (cases ops) auto
    from assms(1) ops have "clamping_op z'" and rest: "list_all clamping_op zs" by simp_all
    with pm have "zoom_in_range (apply_zoom_op v z')" by (simp add: clamping_op_in_range)
    with rest have "zoom_in_range (foldl apply_zoom_op (apply_zoom_op v z') zs)"
      by (simp add: clamping_ops_in_range)
    with ops show ?thesis by simp
  qed
  with fit show ?thesis
    by (simp add: apply_zoom_ops_def zoom_in_range_def clamp_zoom_idem)
qed

theorem zoom_clamped_in_range_witness:
  "list_all clamping_op [ZoomImage (11 / 10), Wheel 120, ZoomImage 100]
   \<and> original_pixmap small_image_viewer \<noteq> None
   \<and> 1 / 10 \<le> zoom_factor (apply_zoom_ops small_image_viewer [ZoomImage (11 / 10), Wheel 120, ZoomImage 100])
   \<and> zoom_factor (apply_zoom_ops small_image_viewer [ZoomImage (11 / 10), Wheel 120, ZoomImage 100]) \<le> 5
   \<and> clamp_zoom (clamp_zoom 7) = clamp_zoom 7
   \<and> original_pixmap small_image_viewer = Some \<lparr>pm_width = 10, pm_height = 10, pm_pixels = 0\<rparr>
   \<and> zoom_factor (apply_zoom_ops small_image_viewer [FitToViewport]) = 60"
proof -
  have a: "list_all clamping_op [ZoomImage (11 / 10), Wheel 120, ZoomImage 100]" by simp
  have b: "original_pixmap small_image_viewer \<noteq> None" by (simp add: small_image_viewer_def)
  from b have c: "zoom_in_range small_image_viewer
      \<or> ([ZoomImage (11 / 10), Wheel 120, ZoomImage 100] \<noteq> [] \<and> original_pixmap small_image_viewer \<noteq> None)"
    by simp
  have d: "original_pixmap small_image_viewer = Some \<lparr>pm_width = 10, pm_height = 10, pm_pixels = 0\<rparr>"
    "viewport_size small_image_viewer = (800, 600)"
    by (simp_all add: small_image_viewer_def)
  from zoom_clamped_in_range
         [OF a c, of 7 small_image_viewer "\<lparr>pm_width = 10, pm_height = 10, pm_pixels = 0\<rparr>"] a b d
  show ?thesis by simp
qed

text \<open>
  C2 as stated fails: fit-to-viewport of a 10 x 10 image in an 800 x 600 viewport sets the
  zoom factor to 60, and the main window's zoom-in slot takes a zoom factor of 5 to 6.
\<close>

theorem zoom_fit_counterexample:
  "zoom_in_range small_image_viewer
   \<and> zoom_factor (apply_zoom_ops small_image_viewer [FitToViewport]) = 60
   \<and> \<not> zoom_factor (apply_zoom_ops small_image_viewer [FitToViewport]) \<le> 5
   \<and> zoom_factor (apply_zoom_ops small_image_viewer [ZoomImage 5, AppZoomIn]) = 6"
  by (simp add: apply_zoom_ops_def small_image_viewer_def zoom_in_range_def fit_to_viewport_def
      zoom_image_def zoom_in_def clamp_zoom_def update_image_def)




section \<open>Theorems: region picker\<close>

lemma capture_failed_no_grab:
  "Grab r \<notin> set (capture_failed e)" "ImageCaptured i \<notin> set (capture_failed e)"
  by (simp_all add: capture_failed_def)

text \<open>
  C3. A committed selection whose width or height, after normalizing the corner points
  and applying the scroll offset, is below 10 pixels produces no captured image: the
  overlay is closed, \<open>sct.grab\<close> is never called and \<open>image_captured\<close> is never emitted.
  This holds for \<open>capture_selection\<close> and for the mouse release that commits a drawn
  selection.
\<close>

theorem small_selection_not_captured:
  assumes "(max (fst (begin_pos p)) (fst (end_pos p)) - scroll_x p)
             - (min (fst (begin_pos p)) (fst (end_pos p)) - scroll_x p) < 10
           \<or> (max (snd (begin_pos p)) (snd (end_pos p)) - scroll_y p)
             - (min (snd (begin_pos p)) (snd (end_pos p)) - scroll_y p) < 10"
  shows "capture_selection env p = (p\<lparr>overlay_visible := False\<rparr>, [Close, Close])
         \<and> (\<forall>r. Grab r \<notin> set (snd (capture_selection env p)))
         \<and> (\<forall>i. ImageCaptured i \<notin> set (snd (capture_selection env p)))
         \<and> (is_drawing p \<and> \<not> is_dragging p \<longrightarrow>
              snd (mouseReleaseEvent env True p) = [Close, Close]
              \<and> \<not> overlay_visible (fst (mouseReleaseEvent env True p)))"
proof -
  have a: "capture_selection env p = (p\<lparr>overlay_visible := False\<rparr>, [Close, Close])"
    using assms unfolding capture_selection_def Let_def by simp
  have b: "capture_selection env (p\<lparr>is_drawing := False\<rparr>)
             = (p\<lparr>is_drawing := False, overlay_visible := False\<rparr>, [Close, Close])"
    using assms unfolding capture_selection_def Let_def by simp
  from a b show ?thesis by (simp add: mouseReleaseEvent_def)
qed

theorem small_selection_not_captured_witness:
  "capture_selection full_hd_env (init_picker\<lparr>begin_pos := (100, 100), end_pos := (400, 105)\<rparr>)
     = (init_picker\<lparr>begin_pos := (100, 100), end_pos := (400, 105), overlay_visible := False\<rparr>,
        [Close, Close])"
  using small_selection_not_captured
          [of "init_picker\<lparr>begin_pos := (100, 100), end_pos := (400, 105)\<rparr>" full_hd_env]
  by (simp add: init_picker_def)

text \<open>
  C4 (as amended). For every committed selection of at least 10 x 10 pixels, when the
  screen geometry and the primary monitor are available, \<open>sct.grab\<close> is called exactly
  with the selection rectangle (normalized corner points) translated by the scroll offset
  and the monitor's origin, its width and height those of the selection. The rectangle is
  not intersected with the monitor's bounds.
\<close>

theorem grab_rect_is_translated_selection:
  assumes "\<not> (\<bar>fst (end_pos p) - fst (begin_pos p)\<bar> < 10 \<or> \<bar>snd (end_pos p) - snd (begin_pos p)\<bar> < 10)"
    and "screen_geometry env = Inr sg"
    and "primary_monitor env = Inr monitor"
  shows "Grab r \<in> set (snd (capture_selection env p)) \<longleftrightarrow> r = translated_selection p monitor"
proof -
  let ?r = "translated_selection p monitor"
  have w: "max (fst (begin_pos p)) (fst (end_pos p)) - scroll_x p
             - (min (fst (begin_pos p)) (fst (end_pos p)) - scroll_x p)
           = \<bar>fst (end_pos p) - fst (begin_pos p)\<bar>"
    by (simp add: max_def min_def)
  have h: "max (snd (begin_pos p)) (snd (end_pos p)) - scroll_y p
             - (min (snd (begin_pos p)) (snd (end_pos p)) - scroll_y p)
           = \<bar>snd (end_pos p) - snd (begin_pos p)\<bar>"
    by (simp add: max_def min_def)
  obtain rest :: "'a picker_effect list" where
    rest: "snd (capture_selection env p) = [Hide, ProcessEvents, Sleep, Grab ?r] @ rest"
      and no: "Grab r \<notin> set rest"
  proof (cases "sct_grab env ?r")
    case (Inl e)
    show thesis
    proof (rule that [of "capture_failed e"])
      show "snd (capture_selection env p) = [Hide, ProcessEvents, Sleep, Grab ?r] @ capture_failed e"
        using assms Inl unfolding capture_selection_def Let_def w h
        by (simp add: translated_selection_def)
    qed (rule capture_failed_no_grab)
  next
    case (Inr shot)
    show thesis
    proof (cases "to_bgr env shot")
      case (Inl e)
      show thesis
      proof (rule that [of "capture_failed e"])
        show "snd (capture_selection env p) = [Hide, ProcessEvents, Sleep, Grab ?r] @ capture_failed e"
          using assms Inr Inl unfolding capture_selection_def Let_def w h
          by (simp add: translated_selection_def)
      qed (rule capture_failed_no_grab)
    next
      case (Inr img)
      show thesis
      proof (rule that [of "[ImageCaptured img, Close]"])
        show "snd (capture_selection env p)
                = [Hide, ProcessEvents, Sleep, Grab ?r] @ [ImageCaptured img, Close]"
          using assms \<open>sct_grab env ?r = Inr shot\<close> Inr unfolding capture_selection_def Let_def w h
          by (simp add: translated_selection_def)
      qed simp
    qed
  qed
  then show ?thesis by auto
qed

theorem grab_rect_is_translated_selection_witness:
  "Grab \<lparr>left = 100, top = 1100, width = 200, height = 200\<rparr>
     \<in> set (snd (capture_selection full_hd_env scrolled_picker))"
proof -
  have a: "\<not> (\<bar>fst (end_pos scrolled_picker) - fst (begin_pos scrolled_picker)\<bar> < 10
             \<or> \<bar>snd (end_pos scrolled_picker) - snd (begin_pos scrolled_picker)\<bar> < 10)"
    by (simp add: scrolled_picker_def wheelEvent_def init_picker_def)
  have b: "screen_geometry full_hd_env = Inr full_hd" "primary_monitor full_hd_env = Inr full_hd"
    by (simp_all add: full_hd_env_def)
  have c: "translated_selection scrolled_picker full_hd
             = \<lparr>left = 100, top = 1100, width = 200, height = 200\<rparr>"
    by (simp add: translated_selection_def scrolled_picker_def wheelEvent_def init_picker_def
        full_hd_def)
  from grab_rect_is_translated_selection [OF a b, of "\<lparr>left = 100, top = 1100, width = 200, height = 200\<rparr>"] c
  show ?thesis by simp
qed

text \<open>
  C4 as stated fails: after scrolling 50 notches the rectangle that is grabbed starts
  at y = 1100, below a monitor that is 1080 pixels high; it is not within the monitor and
  it is not the intersection the claim describes.
\<close>

theorem grab_rect_outside_monitor_counterexample:
  "snd (capture_selection full_hd_env scrolled_picker)
     = [Hide, ProcessEvents, Sleep, Grab \<lparr>left = 100, top = 1100, width = 200, height = 200\<rparr>,
        ImageCaptured \<lparr>left = 100, top = 1100, width = 200, height = 200\<rparr>, Close]
   \<and> \<not> rect_within \<lparr>left = 100, top = 1100, width = 200, height = 200\<rparr> full_hd
   \<and> spec_grab_rect scrolled_picker full_hd = \<lparr>left = 100, top = 1100, width = 200, height = 0\<rparr>
   \<and> spec_grab_rect scrolled_picker full_hd \<noteq> \<lparr>left = 100, top = 1100, width = 200, height = 200\<rparr>"
  by (simp add: capture_selection_def scrolled_picker_def wheelEvent_def init_picker_def
      full_hd_env_def full_hd_def rect_within_def spec_grab_rect_def intersect_rect_def
      translated_selection_def Let_def)

section \<open>Theorems: text-to-speech worker\<close>

lemma reinit_engine_no_finished: "TtsFinished \<notin> set (snd (reinit_engine env st))"
  by (simp add: reinit_engine_def split: sum.splits option.splits)

lemma reinit_engine_running: "tts_is_running (fst (reinit_engine env st)) = tts_is_running st"
  by (simp add: reinit_engine_def split: sum.splits)

lemma tts_run_except_no_finished: "TtsFinished \<notin> set (snd (tts_run_except env e st))"
  using reinit_engine_no_finished [of env st]
  by (auto simp add: tts_run_except_def split: prod.splits)

lemma tts_run_try_no_finished: "TtsFinished \<notin> set (snd (tts_run_try env st))"
proof -
  have "TtsFinished \<notin> set (snd (tts_run_except env e st'))" for e st'
    by (rule tts_run_except_no_finished)
  then have "tts_run_except env e st' = (st2, es) \<Longrightarrow> TtsFinished \<notin> set es" for e st' st2 es
    by (metis snd_conv)
  then show ?thesis
    by (auto simp add: tts_run_try_def Let_def split: option.splits prod.splits)
qed

lemma tts_run_not_running: "\<not> tts_is_running st \<Longrightarrow> \<not> tts_is_running (fst (tts_run env st))"
  by (simp add: tts_run_def split: prod.splits)

lemma tts_stop_not_running: "\<not> tts_is_running (fst (tts_stop env st))"
proof (cases "tts_engine st")
  case None
  then show ?thesis by (simp add: tts_stop_def)
next
  case (Some engine)
  have "\<not> tts_is_running (fst (reinit_engine env (st\<lparr>stop_requested := True, tts_is_running := False\<rparr>)))"
    by (simp add: reinit_engine_running)
  with Some show ?thesis
    by (auto simp add: tts_stop_def Let_def split: prod.splits)
qed

lemma tts_reachable_idle: "tts_reachable st \<Longrightarrow> \<not> tts_is_running st"
proof (induction rule: tts_reachable.induct)
  case reach_init
  show ?case by (simp add: init_tts_def)
next
  case (reach_set_text st t)
  then show ?case by (simp add: set_text_def)
next
  case (reach_set_engine st engine)
  then show ?case by (simp add: set_engine_def)
next
  case (reach_stop st env)
  show ?case by (rule tts_stop_not_running)
next
  case (reach_run st env)
  then show ?case by (simp add: tts_run_not_running)
qed

lemma count_list_append: "count_list (xs @ ys) a = count_list xs a + count_list ys a"
  by (induction xs) simp_all

lemma count_list_absent: "a \<notin> set xs \<Longrightarrow> count_list xs a = 0"
  by (induction xs) auto

lemma tts_run_idle_finished_once:
  assumes "\<not> tts_is_running st"
  shows "count_list (snd (tts_run env st)) TtsFinished = 1"
proof -
  obtain st1 es where r: "tts_run_try env (st\<lparr>stop_requested := False, tts_is_running := True\<rparr>) = (st1, es)"
    by (cases "tts_run_try env (st\<lparr>stop_requested := False, tts_is_running := True\<rparr>)")
  have "TtsFinished \<notin> set es"
    using tts_run_try_no_finished [of env "st\<lparr>stop_requested := False, tts_is_running := True\<rparr>"] r
    by simp
  then have "count_list es TtsFinished = 0" by (rule count_list_absent)
  with assms r show ?thesis
    by (simp add: tts_run_def count_list_append)
qed

text \<open>
  C9. Every invocation of the worker's \<open>run\<close>, in any state the worker reaches from its
  construction through \<open>set_text\<close>, \<open>set_engine\<close>, \<open>stop\<close> and earlier runs, emits
  \<open>finished\<close> exactly once, whatever the engine does: \<open>say\<close> or \<open>runAndWait\<close> may
  raise, the engine may fail to stop or to be replaced.
\<close>

theorem tts_finished_exactly_once:
  assumes "tts_reachable st"
  shows "count_list (snd (tts_run env st)) TtsFinished = 1"
  using assms by (simp add: tts_reachable_idle tts_run_idle_finished_once)

theorem tts_finished_exactly_once_witness:
  "tts_reachable (set_text ''hello'' (set_engine (Some 0) init_tts))
   \<and> snd (tts_run failing_engine (set_text ''hello'' (set_engine (Some 0) init_tts)))
       = [TtsStarted, TtsSleep, TtsSay ''hello'',
          TtsLogError ''Error in TTS thread: run loop already started'',
          TtsEngineStop, TtsEngineInit, TtsSetProperty ''rate'', TtsSetProperty ''volume'',
          TtsFinished, TtsEngineStop]
   \<and> count_list (snd (tts_run failing_engine (set_text ''hello'' (set_engine (Some 0) init_tts))))
        TtsFinished = 1"
proof -
  have a: "tts_reachable (set_text ''hello'' (set_engine (Some 0) init_tts))"
    by (intro tts_reachable.intros)
  have b: "snd (tts_run failing_engine (set_text ''hello'' (set_engine (Some 0) init_tts)))
       = [TtsStarted, TtsSleep, TtsSay ''hello'',
          TtsLogError ''Error in TTS thread: run loop already started'',
          TtsEngineStop, TtsEngineInit, TtsSetProperty ''rate'', TtsSetProperty ''volume'',
          TtsFinished, TtsEngineStop]"
    by (simp add: tts_run_def tts_run_try_def tts_run_except_def reinit_engine_def
        failing_engine_def set_text_def set_engine_def init_tts_def)
  from a b tts_finished_exactly_once [OF a, of failing_engine] show ?thesis by simp
qed

section \<open>Theorems: language-pack manager\<close>

text \<open>
  C8. Starting a download for a language code that is already in the in-flight set (or
  for English) does nothing: the state (the in-flight set and the download threads with
  it) is unchanged and nothing happens outside, so no download thread is started. The
  completion slot and the failure slot each remove exactly that code from the in-flight
  set and its thread from the thread table, leave the rest of the state as it is, and
  notify the user with a message box.
\<close>

theorem duplicate_download_is_noop:
  "(code \<in> downloading_languages st \<or> code = ''en'' \<longrightarrow>
      start_language_download env code st = (st, [])
      \<and> downloading_languages (fst (start_language_download env code st)) = downloading_languages st
      \<and> download_threads (fst (start_language_download env code st)) = download_threads st
      \<and> DownloadThreadStarted code \<notin> set (snd (start_language_download env code st)))
   \<and> on_language_download_complete code st
       = (st\<lparr>downloading_languages := downloading_languages st - {code},
             download_threads := (download_threads st)(code := None)\<rparr>,
          [InformationBox ''Download Complete''])
   \<and> on_language_download_error code error st
       = (st\<lparr>downloading_languages := downloading_languages st - {code},
             download_threads := (download_threads st)(code := None)\<rparr>,
          [WarningBox ''Download Error''])
   \<and> downloading_languages (fst (on_language_download_complete code st))
       = downloading_languages st - {code}
   \<and> downloading_languages (fst (on_language_download_error code error st))
       = downloading_languages st - {code}
   \<and> lang_checkboxes (fst (on_language_download_complete code st)) = lang_checkboxes st
   \<and> reader (fst (on_language_download_complete code st)) = reader st
   \<and> lang_checkboxes (fst (on_language_download_error code error st)) = lang_checkboxes st
   \<and> reader (fst (on_language_download_error code error st)) = reader st"
  by (simp add: start_language_download_def on_language_download_complete_def
      on_language_download_error_def)

theorem duplicate_download_is_noop_witness:
  "''ja'' \<in> downloading_languages japanese_in_flight
   \<and> start_language_download threads_start ''ja'' japanese_in_flight = (japanese_in_flight, [])
   \<and> start_language_download threads_start ''en'' init_lang_manager = (init_lang_manager, [])
   \<and> downloading_languages (fst (on_language_download_complete ''ja'' japanese_in_flight)) = {}
   \<and> downloading_languages (fst (on_language_download_error ''ja'' ''timeout'' japanese_in_flight)) = {}"
proof -
  have a: "''ja'' \<in> downloading_languages japanese_in_flight"
    by (simp add: japanese_in_flight_def)
  have b: "downloading_languages japanese_in_flight - {''ja''} = {}"
    by (simp add: japanese_in_flight_def)
  from duplicate_download_is_noop [of "''ja''" japanese_in_flight threads_start "''timeout''"]
       duplicate_download_is_noop [of "''en''" init_lang_manager threads_start "''timeout''"]
       a b
  show ?thesis by simp
qed

text \<open>
  C7 on the code. From the initial selection (English and Chinese (Traditional)) the user
  ticks Japanese, so two Asian languages are selected. The slot unticks Chinese
  (Traditional); the slot run by that change probes the Japanese pack, which raises
  \<open>NameError\<close>, tries to construct the reader for English and Japanese, which raises
  \<open>NameError\<close>, warns the user, and falls back twice to an English reader, which raises
  \<open>NameError\<close> again, and that exception leaves the slot. The result is the list of
  checkbox states in the order of \<open>lang_names\<close>, the reader's languages, the effects
  and the escaping exception: the checkboxes show English and Japanese and the reader
  still has English and Chinese (Traditional).
\<close>

theorem language_slot_never_sets_reader:
  "(case user_toggles 5 env Japanese init_lang_manager of
      None \<Rightarrow> None
    | Some (st, es, x) \<Rightarrow> Some (map (lang_checkboxes st) lang_names, reader st, es, x))
   = Some ([True, False, True, False, False, False], [''en'', ''ch_tra''],
           [LangLogError (''Error checking language pack: '' @ str_of_exn (NameError ''easyocr'')),
            LangLogError (''Error updating languages: '' @ str_of_exn (NameError ''easyocr'')),
            WarningBox ''Language Selection Error'',
            LangLogError (''Error in language selection: '' @ str_of_exn (NameError ''easyocr''))],
           Some (NameError ''easyocr''))"
  by code_simp

section \<open>Theorems: processing worker\<close>

lemma ocr_loop_result:
  "ocr_loop env results (d, ex, tps) = Inr (d', ex', tps') \<Longrightarrow>
     tps' = tps @ map (\<lambda>(bbox, txt, prob).
                \<lparr>pos_text = txt, pos_x = sum_list (map fst bbox) / 4,
                 pos_y = sum_list (map snd bbox) / 4, confidence = prob\<rparr>)
              (filter accepted results)
     \<and> ex' = ex @ map (\<lambda>(bbox, txt, prob). txt) (filter accepted results)"
proof (induction results arbitrary: d ex tps)
  case Nil
  then show ?case by simp
next
  case (Cons r results)
  obtain bbox t prob where r: "r = (bbox, t, prob)" by (cases r)
  show ?case
  proof (cases "prob > 1 / 2")
    case False
    with Cons r show ?thesis by (simp add: accepted_def)
  next
    case True
    with Cons.prems r obtain d1 x y corners d2 where
      "bbox = (x, y) # corners"
      and rest: "ocr_loop env results
              (d2, ex @ [t],
               tps @ [\<lparr>pos_text = t, pos_x = sum_list (map fst bbox) / 4,
                        pos_y = sum_list (map snd bbox) / 4, confidence = prob\<rparr>])
            = Inr (d', ex', tps')"
      by (auto simp add: Let_def split: sum.splits list.splits)
    from Cons.IH [OF rest] True r show ?thesis by (simp add: accepted_def)
  qed
qed

lemma center_position_four:
  "length bbox = 4 \<Longrightarrow>
     center_position (bbox, txt, prob)
       = \<lparr>pos_text = txt, pos_x = sum_list (map fst bbox) / 4,
          pos_y = sum_list (map snd bbox) / 4, confidence = prob\<rparr>"
  by (simp add: center_position_def mean_def)

lemma map_center_position:
  "\<forall>d \<in> set results. length (fst d) = 4 \<Longrightarrow>
     map (\<lambda>(bbox, txt, prob).
                \<lparr>pos_text = txt, pos_x = sum_list (map fst bbox) / 4,
                 pos_y = sum_list (map snd bbox) / 4, confidence = prob\<rparr>)
              (filter accepted results)
     = map center_position (filter accepted results)"
  by (induction results) (auto simp add: center_position_four)


lemma extract_text_try_sorted:
  "extract_text_try env image0 = Inr (full_text, drawn, text_positions) \<Longrightarrow>
     sorted (map (\<lambda>p. (pos_y p, pos_x p)) text_positions)"
  by (auto simp add: extract_text_try_def split: sum.splits)

lemma ocr_success_positions:
  assumes "readtext env (preprocess_image_for_ocr env image0) = Inr results"
    and "extract_text_try env image0 = Inr (full_text, drawn, text_positions)"
    and "\<forall>d \<in> set results. length (fst d) = 4"
  shows "extract_text_from_image env image0 = (full_text, drawn, text_positions)
     \<and> mset text_positions = mset (map center_position (filter accepted results))
     \<and> sorted (map (\<lambda>p. (pos_y p, pos_x p)) text_positions)
     \<and> map (\<lambda>p. (pos_y p, pos_x p)) text_positions
         = sort (map (\<lambda>p. (pos_y p, pos_x p)) (map center_position (filter accepted results)))"
proof -
  from assms(1,2) obtain drawn0 extracted unsorted where
    loop: "ocr_loop env results (drawn0, [], []) = Inr (drawn, extracted, unsorted)"
    and tps: "text_positions = sort_key (\<lambda>p. (pos_y p, pos_x p)) unsorted"
    by (auto simp add: extract_text_try_def split: sum.splits)
  from ocr_loop_result [OF loop] map_center_position [OF assms(3)]
  have unsorted: "unsorted = map center_position (filter accepted results)" by simp
  have a: "extract_text_from_image env image0 = (full_text, drawn, text_positions)"
    using assms(2) by (simp add: extract_text_from_image_def)
  have b: "mset text_positions = mset (map center_position (filter accepted results))"
    using tps unsorted by simp
  have c: "sorted (map (\<lambda>p. (pos_y p, pos_x p)) text_positions)"
    using assms(2) by (rule extract_text_try_sorted)
  from b have "mset (map (\<lambda>p. (pos_y p, pos_x p)) text_positions)
      = mset (map (\<lambda>p. (pos_y p, pos_x p)) (map center_position (filter accepted results)))"
    by (metis mset_map)
  from this c have d: "sort (map (\<lambda>p. (pos_y p, pos_x p)) (map center_position (filter accepted results)))
      = map (\<lambda>p. (pos_y p, pos_x p)) text_positions"
    by (rule properties_for_sort)
  from a b c d show ?thesis by simp
qed

lemma extract_text_sorted:
  "sorted (map (\<lambda>p. (pos_y p, pos_x p)) (snd (snd (extract_text_from_image env image0))))"
proof (cases "extract_text_try env image0")
  case (Inl e)
  then show ?thesis by (simp add: extract_text_from_image_def)
next
  case (Inr r)
  obtain t d tps where r: "r = (t, d, tps)" by (cases r)
  with Inr extract_text_try_sorted [of env image0 t d tps] show ?thesis
    by (simp add: extract_text_from_image_def)
qed

text \<open>
  C1 (as amended). Whenever the OCR stage runs to its end without an exception and the
  engine's polygons have four corners, the text-position list it returns holds exactly
  the detections of confidence above 0.5 (as a multiset), each with its text, its
  confidence and the arithmetic mean of its corner coordinates; the list is
  non-decreasing in (y, x) lexicographic order, and its sequence of (y, x) keys is the
  sorted sequence of the accepted detections' keys, so it does not depend on the order in
  which the engine returned them. When copying the image, the recognition or a drawing
  call raises, the stage returns the empty list. In both cases the list is sorted and
  holds only detections of confidence above 0.5. No bound on the confidences is needed.
\<close>

theorem ocr_positions_filtered_and_sorted:
  "(readtext env (preprocess_image_for_ocr env image0) = Inr results
      \<and> extract_text_try env image0 = Inr (full_text, drawn, text_positions)
      \<and> (\<forall>d \<in> set results. length (fst d) = 4) \<longrightarrow>
      extract_text_from_image env image0 = (full_text, drawn, text_positions)
      \<and> mset text_positions = mset (map center_position (filter accepted results))
      \<and> sorted (map (\<lambda>p. (pos_y p, pos_x p)) text_positions)
      \<and> map (\<lambda>p. (pos_y p, pos_x p)) text_positions
          = sort (map (\<lambda>p. (pos_y p, pos_x p))
                   (map center_position (filter accepted results))))
   \<and> (extract_text_try env image0 = Inl e \<longrightarrow>
        extract_text_from_image env image0 = ([], image0, []))
   \<and> sorted (map (\<lambda>p. (pos_y p, pos_x p)) (snd (snd (extract_text_from_image env image0))))
   \<and> (readtext env (preprocess_image_for_ocr env image0) = Inr results
        \<and> (\<forall>d \<in> set results. length (fst d) = 4) \<longrightarrow>
        mset (snd (snd (extract_text_from_image env image0)))
          \<subseteq># mset (map center_position (filter accepted results)))"
proof -
  have a: "readtext env (preprocess_image_for_ocr env image0) = Inr results
      \<and> extract_text_try env image0 = Inr (full_text, drawn, text_positions)
      \<and> (\<forall>d \<in> set results. length (fst d) = 4) \<longrightarrow>
      extract_text_from_image env image0 = (full_text, drawn, text_positions)
      \<and> mset text_positions = mset (map center_position (filter accepted results))
      \<and> sorted (map (\<lambda>p. (pos_y p, pos_x p)) text_positions)
      \<and> map (\<lambda>p. (pos_y p, pos_x p)) text_positions
          = sort (map (\<lambda>p. (pos_y p, pos_x p))
                   (map center_position (filter accepted results)))"
    using ocr_success_positions [of env image0 results full_text drawn text_positions] by blast
  have b: "extract_text_try env image0 = Inl e \<longrightarrow>
        extract_text_from_image env image0 = ([], image0, [])"
    by (simp add: extract_text_from_image_def)
  have c: "readtext env (preprocess_image_for_ocr env image0) = Inr results
        \<and> (\<forall>d \<in> set results. length (fst d) = 4) \<longrightarrow>
        mset (snd (snd (extract_text_from_image env image0)))
          \<subseteq># mset (map center_position (filter accepted results))"
  proof (cases "extract_text_try env image0")
    case (Inl e1)
    then show ?thesis by (simp add: extract_text_from_image_def)
  next
    case (Inr r)
    obtain t d tps where r: "r = (t, d, tps)" by (cases r)
    show ?thesis
    proof (intro impI, elim conjE)
      assume rd: "readtext env (preprocess_image_for_ocr env image0) = Inr results"
        and four: "\<forall>d \<in> set results. length (fst d) = 4"
      from Inr r have x: "extract_text_try env image0 = Inr (t, d, tps)" by simp
      from ocr_success_positions [OF rd x four]
      show "mset (snd (snd (extract_text_from_image env image0)))
          \<subseteq># mset (map center_position (filter accepted results))"
        by simp
    qed
  qed
  from a b c extract_text_sorted [of env image0] show ?thesis by blast
qed

lemma extract_working:
  "extract_text_try working_env 7
     = Inr (''World Hello'', 11,
            [\<lparr>pos_text = ''Hello'', pos_x = 10, pos_y = 10, confidence = 9 / 10\<rparr>,
             \<lparr>pos_text = ''World'', pos_x = 10, pos_y = 400, confidence = 6 / 10\<rparr>])"
  by (simp add: extract_text_try_def working_env_def two_detections_def
      preprocess_image_for_ocr_def)

theorem ocr_positions_filtered_and_sorted_witness:
  "readtext working_env (preprocess_image_for_ocr working_env 7) = Inr two_detections
   \<and> map (\<lambda>d. length (fst d)) two_detections = [4, 4, 4]
   \<and> extract_text_from_image working_env 7
       = (''World Hello'', 11,
          [\<lparr>pos_text = ''Hello'', pos_x = 10, pos_y = 10, confidence = 9 / 10\<rparr>,
           \<lparr>pos_text = ''World'', pos_x = 10, pos_y = 400, confidence = 6 / 10\<rparr>])
   \<and> mset [\<lparr>pos_text = ''Hello'', pos_x = 10, pos_y = 10, confidence = 9 / 10\<rparr>,
            \<lparr>pos_text = ''World'', pos_x = 10, pos_y = 400, confidence = 6 / 10\<rparr>]
       = mset (map center_position (filter accepted two_detections))"
proof -
  have a: "readtext working_env (preprocess_image_for_ocr working_env 7) = Inr two_detections"
    by (simp add: working_env_def)
  have b: "\<forall>d \<in> set two_detections. length (fst d) = 4"
    by (simp add: two_detections_def)
  have c: "map (\<lambda>d. length (fst d)) two_detections = [4, 4, 4]"
    by (simp add: two_detections_def)
  from ocr_positions_filtered_and_sorted
         [of working_env 7 two_detections "''World Hello''" 11
             "[\<lparr>pos_text = ''Hello'', pos_x = 10, pos_y = 10, confidence = 9 / 10\<rparr>,
               \<lparr>pos_text = ''World'', pos_x = 10, pos_y = 400, confidence = 6 / 10\<rparr>]"
             ZeroDivisionError]
       a b c extract_working
  show ?thesis by simp
qed

text \<open>
  C1 as stated fails: the engine returns two detections of confidence above 0.5 and the
  drawing of a text raises, so the stage returns the empty position list.
\<close>

theorem annotation_exception_counterexample:
  "readtext draw_fails_env (preprocess_image_for_ocr draw_fails_env 7) = Inr two_detections
   \<and> length (filter accepted two_detections) = 2
   \<and> extract_text_from_image draw_fails_env 7 = ([], 7, [])
   \<and> mset (snd (snd (extract_text_from_image draw_fails_env 7)))
       \<noteq> mset (map center_position (filter accepted two_detections))"
  by (simp add: extract_text_from_image_def extract_text_try_def draw_fails_env_def
      working_env_def two_detections_def preprocess_image_for_ocr_def accepted_def)

text \<open>
  C10 (as amended). \<open>extract_text_from_image\<close> returns a result for every image and
  every behaviour of its collaborators; no exception leaves it. If copying the image,
  the recognition, or the annotation loop raises, the result is the empty string, the
  unmodified input image and the empty position list. An exception during preprocessing
  does not reach that handler: \<open>preprocess_image_for_ocr\<close> catches it and returns the
  original image, and recognition and annotation then run on that image. After an empty
  OCR result, \<open>run\<close> emits the OCR tab update with the input image and no text and goes
  on with the captioning stage, with an empty position list.
\<close>

theorem ocr_exceptions_give_empty_result:
  "(copy_image env i = Inl e \<longrightarrow> extract_text_from_image env i = ([], i, []))
   \<and> (readtext env (preprocess_image_for_ocr env i) = Inl e \<longrightarrow>
        extract_text_from_image env i = ([], i, []))
   \<and> (copy_image env i = Inr drawn0 \<and> readtext env (preprocess_image_for_ocr env i) = Inr results
        \<and> ocr_loop env results (drawn0, [], []) = Inl e \<longrightarrow>
        extract_text_from_image env i = ([], i, []))
   \<and> (preprocess_steps env i = Inl e \<longrightarrow>
        preprocess_image_for_ocr env i = i
        \<and> extract_text_try env i
            = (case copy_image env i of
                 Inl e1 \<Rightarrow> Inl e1
               | Inr drawn_img \<Rightarrow>
                   (case readtext env i of
                      Inl e1 \<Rightarrow> Inl e1
                    | Inr rs \<Rightarrow>
                        (case ocr_loop env rs (drawn_img, [], []) of
                           Inl e1 \<Rightarrow> Inl e1
                         | Inr (drawn, extracted_text, text_positions) \<Rightarrow>
                             Inr (join_with '' '' extracted_text, drawn,
                                  sort_key (\<lambda>p. (pos_y p, pos_x p)) text_positions)))))
   \<and> (extract_text_from_image env i = ([], i, []) \<and> img st = Some i \<longrightarrow>
        run env st = ProgressEv msg_running_ocr # TabUpdate 0 i msg_ocr_complete #
                     vision_stage env st i [])"
  by (auto simp add: extract_text_from_image_def extract_text_try_def run_def
      preprocess_image_for_ocr_def split: sum.splits)

theorem ocr_exceptions_give_empty_result_witness:
  "readtext readtext_fails_env (preprocess_image_for_ocr readtext_fails_env 7)
     = Inl (Raised ''reader is not initialized'')
   \<and> extract_text_from_image readtext_fails_env 7 = ([], 7, [])
   \<and> run readtext_fails_env loaded_worker
       = ProgressEv msg_running_ocr # TabUpdate 0 7 msg_ocr_complete #
         vision_stage readtext_fails_env loaded_worker 7 []"
proof -
  have a: "readtext readtext_fails_env (preprocess_image_for_ocr readtext_fails_env 7)
             = Inl (Raised ''reader is not initialized'')"
    by (simp add: readtext_fails_env_def working_env_def)
  have b: "img loaded_worker = Some 7" by (simp add: loaded_worker_def)
  from ocr_exceptions_give_empty_result
         [of readtext_fails_env 7 "Raised ''reader is not initialized''" 0 "[]" loaded_worker] a b
  show ?thesis by simp
qed

text \<open>
  C10 as stated fails for preprocessing: the OpenCV steps raise, recognition runs on the
  original image, and the result holds both accepted detections.
\<close>

theorem preprocessing_exception_counterexample:
  "preprocess_steps preprocess_fails_env 7 = Inl (Raised ''OpenCV: unsupported format'')
   \<and> extract_text_from_image preprocess_fails_env 7
       = (''World Hello'', 11,
          [\<lparr>pos_text = ''Hello'', pos_x = 10, pos_y = 10, confidence = 9 / 10\<rparr>,
           \<lparr>pos_text = ''World'', pos_x = 10, pos_y = 400, confidence = 6 / 10\<rparr>])
   \<and> extract_text_from_image preprocess_fails_env 7 \<noteq> ([], 7, [])"
  by (simp add: extract_text_from_image_def extract_text_try_def preprocess_fails_env_def
      working_env_def two_detections_def preprocess_image_for_ocr_def)

lemma llm_stage_events:
  "llm_stage env d tps v =
     (if openai_api_key env = None \<or> openai_api_key env = Some [] then [ErrorEv msg_no_key]
      else
        [ProgressEv msg_running_ai,
         TabUpdate 1 d
           (msg_prompts @ prompts_text (format_positions tps) v (prompt_text (format_positions tps) v)),
         TabUpdate 2 d
           (msg_ai_complete @
            (case chat_completion env (the (openai_api_key env)) (prompt_text (format_positions tps) v) of
               Inl e \<Rightarrow> ''Error: '' @ str_of_exn e
             | Inr content \<Rightarrow> content)),
         ProgressEv msg_check_tabs,
         FinishedEv
           (case chat_completion env (the (openai_api_key env)) (prompt_text (format_positions tps) v) of
              Inl e \<Rightarrow> ''Error: '' @ str_of_exn e
            | Inr content \<Rightarrow> content)])"
  by (simp add: llm_stage_def Let_def split: option.splits)

lemma llm_stage_errors:
  "length (filter is_error (llm_stage env d tps v)) \<le> 1
   \<and> (filter is_error (llm_stage env d tps v) \<noteq> [] \<longrightarrow>
        is_error (last (llm_stage env d tps v))
        \<and> filter is_final_analysis (llm_stage env d tps v) = [])"
  by (simp add: llm_stage_events)

lemma vision_stage_errors:
  "length (filter is_error (vision_stage env st d tps)) \<le> 1
   \<and> (filter is_error (vision_stage env st d tps) \<noteq> [] \<longrightarrow>
        is_error (last (vision_stage env st d tps))
        \<and> filter is_final_analysis (vision_stage env st d tps) = [])"
proof (cases "\<not> model_loaded st \<or> \<not> processor_loaded st")
  case True
  then show ?thesis by (auto simp add: vision_stage_def)
next
  case False
  show ?thesis
  proof (cases "caption env d")
    case (Inl e)
    with False show ?thesis by (simp add: vision_stage_def)
  next
    case (Inr v)
    have ne: "llm_stage env d tps v \<noteq> []" by (simp add: llm_stage_events)
    with False Inr llm_stage_errors [of env d tps v] show ?thesis
      by (simp add: vision_stage_def)
  qed
qed

lemma vision_stage_nonempty: "vision_stage env st d tps \<noteq> []"
  by (simp add: vision_stage_def split: sum.splits)

lemma run_errors:
  "length (filter is_error (run env st)) \<le> 1
   \<and> (filter is_error (run env st) \<noteq> [] \<longrightarrow>
        is_error (last (run env st)) \<and> filter is_final_analysis (run env st) = [])"
proof (cases "img st")
  case None
  then show ?thesis by (simp add: run_def)
next
  case (Some i)
  obtain t d tps where x: "extract_text_from_image env i = (t, d, tps)"
    by (cases "extract_text_from_image env i")
  with Some vision_stage_errors [of env st d tps] vision_stage_nonempty [of env st d tps]
  show ?thesis by (simp add: run_def)
qed

text \<open>
  C5 (as amended). Every run emits at most one error event; when it emits one, that
  event is the last of the run and no final-analysis event (the update of the final tab,
  the \<open>finished\<close> signal) occurs in it. Exactly one error event is emitted when no image
  is set, when the captioning model or its processor is not loaded, when captioning
  raises, and when the API key is absent or empty. Otherwise the run emits no error event
  and ends with \<open>finished\<close>: this includes a failing OCR stage, after which the run goes
  on with empty OCR results, and a failing LLM request, whose message, prefixed with
  ``Error: '', is delivered as the final analysis.
\<close>

theorem stage_failure_events:
  "length (filter is_error (run env st)) \<le> 1
   \<and> (filter is_error (run env st) \<noteq> [] \<longrightarrow>
        is_error (last (run env st)) \<and> filter is_final_analysis (run env st) = [])
   \<and> (img st = None \<longrightarrow> run env st = [ErrorEv ''No image to process''])
   \<and> (img st = Some i \<and> (\<not> model_loaded st \<or> \<not> processor_loaded st) \<longrightarrow>
        filter is_error (run env st) = [ErrorEv msg_no_model])
   \<and> (img st = Some i \<and> model_loaded st \<and> processor_loaded st
        \<and> caption env (fst (snd (extract_text_from_image env i))) = Inl e \<longrightarrow>
        filter is_error (run env st)
          = [ErrorEv (''Error in processing thread: '' @ str_of_exn e)])
   \<and> (img st = Some i \<and> model_loaded st \<and> processor_loaded st
        \<and> caption env (fst (snd (extract_text_from_image env i))) = Inr v
        \<and> (openai_api_key env = None \<or> openai_api_key env = Some []) \<longrightarrow>
        filter is_error (run env st) = [ErrorEv msg_no_key])
   \<and> (img st = Some i \<and> model_loaded st \<and> processor_loaded st
        \<and> caption env (fst (snd (extract_text_from_image env i))) = Inr v
        \<and> openai_api_key env = Some key \<and> key \<noteq> [] \<longrightarrow>
        filter is_error (run env st) = []
        \<and> last (run env st)
            = FinishedEv
                (case chat_completion env key
                        (prompt_text
                           (format_positions (snd (snd (extract_text_from_image env i)))) v) of
                   Inl e1 \<Rightarrow> ''Error: '' @ str_of_exn e1
                 | Inr content \<Rightarrow> content))"
proof -
  obtain t d tps where x: "extract_text_from_image env i = (t, d, tps)"
    by (cases "extract_text_from_image env i")
  have a: "img st = None \<longrightarrow> run env st = [ErrorEv ''No image to process'']"
    by (simp add: run_def)
  have b: "img st = Some i \<and> (\<not> model_loaded st \<or> \<not> processor_loaded st) \<longrightarrow>
        filter is_error (run env st) = [ErrorEv msg_no_model]"
    using x by (auto simp add: run_def vision_stage_def)
  have c: "img st = Some i \<and> model_loaded st \<and> processor_loaded st
        \<and> caption env (fst (snd (extract_text_from_image env i))) = Inl e \<longrightarrow>
        filter is_error (run env st)
          = [ErrorEv (''Error in processing thread: '' @ str_of_exn e)]"
    using x by (simp add: run_def vision_stage_def)
  have d: "img st = Some i \<and> model_loaded st \<and> processor_loaded st
        \<and> caption env (fst (snd (extract_text_from_image env i))) = Inr v
        \<and> (openai_api_key env = None \<or> openai_api_key env = Some []) \<longrightarrow>
        filter is_error (run env st) = [ErrorEv msg_no_key]"
    using x by (auto simp add: run_def vision_stage_def llm_stage_events)
  have e: "img st = Some i \<and> model_loaded st \<and> processor_loaded st
        \<and> caption env (fst (snd (extract_text_from_image env i))) = Inr v
        \<and> openai_api_key env = Some key \<and> key \<noteq> [] \<longrightarrow>
        filter is_error (run env st) = []
        \<and> last (run env st)
            = FinishedEv
                (case chat_completion env key
                        (prompt_text
                           (format_positions (snd (snd (extract_text_from_image env i)))) v) of
                   Inl e1 \<Rightarrow> ''Error: '' @ str_of_exn e1
                 | Inr content \<Rightarrow> content)"
    using x by (simp add: run_def vision_stage_def llm_stage_events)
  from run_errors [of env st] a b c d e show ?thesis by blast
qed

lemma extract_caption_fails:
  "extract_text_from_image caption_fails_env 7
     = (''World Hello'', 11,
        [\<lparr>pos_text = ''Hello'', pos_x = 10, pos_y = 10, confidence = 9 / 10\<rparr>,
         \<lparr>pos_text = ''World'', pos_x = 10, pos_y = 400, confidence = 6 / 10\<rparr>])"
  by (simp add: extract_text_from_image_def extract_text_try_def caption_fails_env_def
      working_env_def two_detections_def preprocess_image_for_ocr_def)

lemma extract_llm_fails:
  "extract_text_from_image llm_fails_env 7
     = (''World Hello'', 11,
        [\<lparr>pos_text = ''Hello'', pos_x = 10, pos_y = 10, confidence = 9 / 10\<rparr>,
         \<lparr>pos_text = ''World'', pos_x = 10, pos_y = 400, confidence = 6 / 10\<rparr>])"
  by (simp add: extract_text_from_image_def extract_text_try_def llm_fails_env_def
      working_env_def two_detections_def preprocess_image_for_ocr_def)

theorem stage_failure_events_witness:
  "caption caption_fails_env (fst (snd (extract_text_from_image caption_fails_env 7)))
     = Inl (Raised ''CUDA out of memory'')
   \<and> filter is_error (run caption_fails_env loaded_worker)
       = [ErrorEv ''Error in processing thread: CUDA out of memory'']
   \<and> is_error (last (run caption_fails_env loaded_worker))
   \<and> filter is_final_analysis (run caption_fails_env loaded_worker) = []
   \<and> filter is_error (run llm_fails_env loaded_worker) = []
   \<and> last (run llm_fails_env loaded_worker) = FinishedEv ''Error: Connection error.''"
proof -
  have a: "caption caption_fails_env (fst (snd (extract_text_from_image caption_fails_env 7)))
     = Inl (Raised ''CUDA out of memory'')"
    by (simp add: caption_fails_env_def working_env_def)
  have b: "img loaded_worker = Some 7" "model_loaded loaded_worker" "processor_loaded loaded_worker"
    by (simp_all add: loaded_worker_def)
  have c: "caption llm_fails_env (fst (snd (extract_text_from_image llm_fails_env 7)))
     = Inr ''a screenshot of a greeting''"
    by (simp add: llm_fails_env_def working_env_def)
  have d: "openai_api_key llm_fails_env = Some ''sk-test''"
    by (simp add: llm_fails_env_def working_env_def)
  have e: "chat_completion llm_fails_env = (\<lambda>key prompt. Inl (Raised ''Connection error.''))"
    by (simp add: llm_fails_env_def working_env_def)
  from stage_failure_events
         [of caption_fails_env loaded_worker 7 "Raised ''CUDA out of memory''" "[]" "[]"] a b
  have f: "filter is_error (run caption_fails_env loaded_worker)
       = [ErrorEv ''Error in processing thread: CUDA out of memory'']
     \<and> is_error (last (run caption_fails_env loaded_worker))
     \<and> filter is_final_analysis (run caption_fails_env loaded_worker) = []"
    by simp
  from stage_failure_events
         [of llm_fails_env loaded_worker 7 ZeroDivisionError "''a screenshot of a greeting''"
             "''sk-test''"] b c d e
  have g: "filter is_error (run llm_fails_env loaded_worker) = []
     \<and> last (run llm_fails_env loaded_worker) = FinishedEv ''Error: Connection error.''"
    by simp
  from a f g show ?thesis by simp
qed

text \<open>
  C5 as stated fails. When the chat request raises, no error event is emitted and the
  final tab and \<open>finished\<close> carry ``Error: Connection error.''; when recognition raises,
  no error event is emitted and the run goes through captioning and the request to its
  end.
\<close>

theorem llm_failure_counterexample:
  "chat_completion llm_fails_env ''sk-test''
       (prompt_text (format_positions (snd (snd (extract_text_from_image llm_fails_env 7))))
          ''a screenshot of a greeting'')
     = Inl (Raised ''Connection error.'')
   \<and> filter is_error (run llm_fails_env loaded_worker) = []
   \<and> last (run llm_fails_env loaded_worker) = FinishedEv ''Error: Connection error.''
   \<and> TabUpdate 2 11 (msg_ai_complete @ ''Error: Connection error.'')
       \<in> set (run llm_fails_env loaded_worker)
   \<and> extract_text_try readtext_fails_env 7 = Inl (Raised ''reader is not initialized'')
   \<and> filter is_error (run readtext_fails_env loaded_worker) = []
   \<and> last (run readtext_fails_env loaded_worker) = FinishedEv ''The screen says Hello World.''"
proof -
  have cap: "caption llm_fails_env i = Inr ''a screenshot of a greeting''" for i
    by (simp add: llm_fails_env_def working_env_def)
  have key: "openai_api_key llm_fails_env = Some ''sk-test''"
    by (simp add: llm_fails_env_def working_env_def)
  have chat: "chat_completion llm_fails_env k p = Inl (Raised ''Connection error.'')" for k p
    by (simp add: llm_fails_env_def working_env_def)
  have cap2: "caption readtext_fails_env i = Inr ''a screenshot of a greeting''" for i
    by (simp add: readtext_fails_env_def working_env_def)
  have key2: "openai_api_key readtext_fails_env = Some ''sk-test''"
    by (simp add: readtext_fails_env_def working_env_def)
  have chat2: "chat_completion readtext_fails_env k p = Inr ''The screen says Hello World.''" for k p
    by (simp add: readtext_fails_env_def working_env_def)
  have a: "run llm_fails_env loaded_worker
     = [ProgressEv msg_running_ocr, TabUpdate 0 11 (msg_ocr_complete @ ''World Hello''),
        ProgressEv msg_running_visual,
        TabUpdate 0 11 (msg_visual_complete @ ''a screenshot of a greeting''),
        ProgressEv msg_running_ai,
        TabUpdate 1 11
          (msg_prompts @
           prompts_text
             (format_positions (snd (snd (extract_text_from_image llm_fails_env 7))))
             ''a screenshot of a greeting''
             (prompt_text
                (format_positions (snd (snd (extract_text_from_image llm_fails_env 7))))
                ''a screenshot of a greeting'')),
        TabUpdate 2 11 (msg_ai_complete @ ''Error: Connection error.''),
        ProgressEv msg_check_tabs,
        FinishedEv ''Error: Connection error.'']"
    by (simp add: run_def vision_stage_def llm_stage_events extract_llm_fails loaded_worker_def
        cap key chat)
  have b: "extract_text_try readtext_fails_env 7 = Inl (Raised ''reader is not initialized'')"
    by (simp add: extract_text_try_def readtext_fails_env_def working_env_def)
  then have c: "extract_text_from_image readtext_fails_env 7 = ([], 7, [])"
    by (simp add: extract_text_from_image_def)
  have d: "run readtext_fails_env loaded_worker
     = [ProgressEv msg_running_ocr, TabUpdate 0 7 (msg_ocr_complete @ []),
        ProgressEv msg_running_visual,
        TabUpdate 0 7 (msg_visual_complete @ ''a screenshot of a greeting''),
        ProgressEv msg_running_ai,
        TabUpdate 1 7
          (msg_prompts @
           prompts_text (format_positions []) ''a screenshot of a greeting''
             (prompt_text (format_positions []) ''a screenshot of a greeting'')),
        TabUpdate 2 7 (msg_ai_complete @ ''The screen says Hello World.''),
        ProgressEv msg_check_tabs,
        FinishedEv ''The screen says Hello World.'']"
    by (simp add: run_def vision_stage_def llm_stage_events c loaded_worker_def cap2 key2 chat2)
  from a b d chat show ?thesis by simp
qed

end
